theory Spec2Isabelle
  imports Complex_Main "HOL-Library.Sublist"
begin

section \<open>Numbers and configuration\<close>

text \<open>
  The TypeScript sources compute with JavaScript numbers. The embedding takes the finite
  numbers as \<^typ>\<open>real\<close>; rounding of IEEE doubles within the finite range is outside
  the model. Where a claim is about a result being finite, the result is a \<open>jsnum\<close>: a
  finite number, or \<open>NonFinite\<close> for \<open>NaN\<close>, \<open>Infinity\<close> and \<open>-Infinity\<close>. An exact result
  at or beyond \<open>2^1024 - 2^970\<close> in magnitude rounds to an infinity (the largest double is
  \<open>2^1024 - 2^971\<close>, and the midpoint to the next power of two rounds away from it), and
  a finite number divided by zero is an infinity or \<open>NaN\<close>.
\<close>

datatype jsnum = Finite real | NonFinite

definition overflowLimit :: real where
  "overflowLimit = 2 ^ 1024 - 2 ^ 970"

definition toDouble :: "real \<Rightarrow> jsnum" where
  "toDouble r = (if \<bar>r\<bar> < overflowLimit then Finite r else NonFinite)"

definition js_subtract :: "real \<Rightarrow> real \<Rightarrow> jsnum" where
  "js_subtract a b = toDouble (a - b)"

fun js_divide :: "jsnum \<Rightarrow> real \<Rightarrow> jsnum" where
  "js_divide NonFinite b = NonFinite"
| "js_divide (Finite a) b = (if b = 0 then NonFinite else toDouble (a / b))"

text \<open>\<open>config.policy\<close> and \<open>config.features\<close> of \<open>lib/config.ts\<close>.\<close>

record policy =
  hypeThreshold :: real
  fudThreshold :: real
  momentumPositive :: real
  momentumNegative :: real
  emaShort :: real
  emaMedium :: real
  emaLong :: real
  maxDailySpendPercent :: real
  maxSlippagePercent :: real
  minTreasuryThreshold :: real
  maxConsecutiveLosses :: nat

definition config_policy :: policy where
  "config_policy =
     \<lparr>hypeThreshold = 1.5, fudThreshold = - 1.0,
      momentumPositive = 0, momentumNegative = 0,
      emaShort = 5, emaMedium = 15, emaLong = 60,
      maxDailySpendPercent = 5, maxSlippagePercent = 2,
      minTreasuryThreshold = 0.1, maxConsecutiveLosses = 3\<rparr>"


section \<open>Mathematical utilities (\<open>lib/utils/math.ts\<close>)\<close>

record ExponentialMovingAverage =
  ema :: "real option"
  alpha :: real

definition newExponentialMovingAverage :: "real \<Rightarrow> ExponentialMovingAverage" where
  "newExponentialMovingAverage window = \<lparr>ema = None, alpha = 2 / (window + 1)\<rparr>"

definition ema_add :: "real \<Rightarrow> ExponentialMovingAverage \<Rightarrow> real \<times> ExponentialMovingAverage" where
  "ema_add v e =
     (let new = (case ema e of
                   None \<Rightarrow> v
                 | Some old \<Rightarrow> alpha e * v + (1 - alpha e) * old)
      in (new, e\<lparr>ema := Some new\<rparr>))"

definition ema_value :: "ExponentialMovingAverage \<Rightarrow> real" where
  "ema_value e = (case ema e of None \<Rightarrow> 0 | Some v \<Rightarrow> v)"

definition ema_reset :: "ExponentialMovingAverage \<Rightarrow> ExponentialMovingAverage" where
  "ema_reset e = e\<lparr>ema := None\<rparr>"

definition calculateZScore :: "real \<Rightarrow> real \<Rightarrow> real \<Rightarrow> jsnum" where
  "calculateZScore v mean stdDev =
     (if stdDev = 0 then Finite 0 else js_divide (js_subtract v mean) stdDev)"

definition calculateStdDev :: "real list \<Rightarrow> real" where
  "calculateStdDev values =
     (if length values = 0 then 0
      else let mean = foldl (\<lambda>acc val. acc + val) 0 values / real (length values);
               squaredDiffs = map (\<lambda>val. (val - mean) ^ 2) values;
               variance = foldl (\<lambda>acc val. acc + val) 0 squaredDiffs / real (length values)
           in sqrt variance)"

definition calculateMean :: "real list \<Rightarrow> real" where
  "calculateMean values =
     (if length values = 0 then 0
      else foldl (\<lambda>acc val. acc + val) 0 values / real (length values))"

datatype crossover = Up | Down | NoCross

definition detectCrossover :: "real list \<Rightarrow> real list \<Rightarrow> crossover" where
  "detectCrossover fastValues slowValues =
     (if length fastValues < 2 \<or> length slowValues < 2 then NoCross
      else let fastPrev = fastValues ! (length fastValues - 2);
               fastCurr = fastValues ! (length fastValues - 1);
               slowPrev = slowValues ! (length slowValues - 2);
               slowCurr = slowValues ! (length slowValues - 1);
               wasBelowNowAbove = (fastPrev \<le> slowPrev \<and> fastCurr > slowCurr);
               wasAboveNowBelow = (fastPrev \<ge> slowPrev \<and> fastCurr < slowCurr)
           in if wasBelowNowAbove then Up
              else if wasAboveNowBelow then Down
              else NoCross)"

section \<open>Sentiment aggregator (\<open>services/sentiment/aggregator.ts\<close>)\<close>

text \<open>
  Of a \<open>ProcessedTweet\<close> the aggregator reads the text, the author weight and the
  sentiment's value and confidence. Texts are byte strings; \<open>toLowerCase\<close> is modelled on
  the ASCII letters. The type of the mood's z-score is a parameter: the aggregator
  produces a \<open>jsnum\<close>, the result of \<open>calculateZScore\<close>, and the decision engine reads a
  finite number from the mood that the policy worker parses from JSON.
\<close>

record SentimentScore =
  score_value :: real
  confidence :: real

record ProcessedTweet =
  tweet_text :: string
  sentiment :: SentimentScore
  authorWeight :: real

record TopicBreakdown =
  ourCoin :: real
  generalMarket :: real

record 'z AggregatedMood =
  mood_timestamp :: nat
  rawScore :: real
  zScore :: 'z
  ema5 :: real
  ema15 :: real
  ema60 :: real
  volume :: nat
  topicBreakdown :: TopicBreakdown

record SentimentAggregator =
  agg_ema5 :: ExponentialMovingAverage
  agg_ema15 :: ExponentialMovingAverage
  agg_ema60 :: ExponentialMovingAverage
  historicalScores :: "real list"

definition maxHistorySize :: nat where
  "maxHistorySize = 1000"

definition newSentimentAggregator :: "policy \<Rightarrow> SentimentAggregator" where
  "newSentimentAggregator cfg =
     \<lparr>agg_ema5 = newExponentialMovingAverage (emaShort cfg),
      agg_ema15 = newExponentialMovingAverage (emaMedium cfg),
      agg_ema60 = newExponentialMovingAverage (emaLong cfg),
      historicalScores = []\<rparr>"

definition toLowerCase :: "string \<Rightarrow> string" where
  "toLowerCase s =
     map (\<lambda>c. let n = (of_char c :: nat)
               in if 65 \<le> n \<and> n \<le> 90 then char_of (n + 32) else c) s"

fun str_includes :: "string \<Rightarrow> string \<Rightarrow> bool" where
  "str_includes [] t = (t = [])"
| "str_includes (c # cs) t = (prefix t (c # cs) \<or> str_includes cs t)"

fun countTopics :: "ProcessedTweet list \<Rightarrow> nat \<times> nat \<Rightarrow> nat \<times> nat" where
  "countTopics [] (ourCoinCount, generalCount) = (ourCoinCount, generalCount)"
| "countTopics (tweet # tweets) (ourCoinCount, generalCount) =
     (let txt = toLowerCase (tweet_text tweet)
      in if str_includes txt ''$yourcoin'' \<or> str_includes txt ''yourcoin''
         then countTopics tweets (ourCoinCount + 1, generalCount)
         else countTopics tweets (ourCoinCount, generalCount + 1))"

definition analyzeTopics :: "ProcessedTweet list \<Rightarrow> TopicBreakdown" where
  "analyzeTopics tweets =
     (case countTopics tweets (0, 0) of
        (ourCoinCount, generalCount) \<Rightarrow>
          let total = ourCoinCount + generalCount
          in \<lparr>ourCoin = (if total > 0 then real ourCoinCount / real total else 0),
              generalMarket = (if total > 0 then real generalCount / real total else 0)\<rparr>)"

definition getEmptyMood :: "nat \<Rightarrow> jsnum AggregatedMood" where
  "getEmptyMood now =
     \<lparr>mood_timestamp = now, rawScore = 0, zScore = Finite 0, ema5 = 0, ema15 = 0, ema60 = 0,
      volume = 0, topicBreakdown = \<lparr>ourCoin = 0, generalMarket = 0\<rparr>\<rparr>"

fun weightedTotals :: "ProcessedTweet list \<Rightarrow> real \<times> real \<Rightarrow> real \<times> real" where
  "weightedTotals [] (totalSentiment, totalWeight) = (totalSentiment, totalWeight)"
| "weightedTotals (tweet # tweets) (totalSentiment, totalWeight) =
     (let weight = authorWeight tweet * confidence (sentiment tweet)
      in weightedTotals tweets
           (totalSentiment + score_value (sentiment tweet) * weight, totalWeight + weight))"

definition rawScoreOf :: "ProcessedTweet list \<Rightarrow> real" where
  "rawScoreOf tweets =
     (case weightedTotals tweets (0, 0) of
        (totalSentiment, totalWeight) \<Rightarrow>
          if totalWeight > 0 then totalSentiment / totalWeight else 0)"

text \<open>\<open>aggregate\<close>; the argument \<open>now\<close> is the clock that \<open>new Date()\<close> reads.\<close>

definition aggregate ::
  "nat \<Rightarrow> ProcessedTweet list \<Rightarrow> SentimentAggregator
     \<Rightarrow> jsnum AggregatedMood \<times> SentimentAggregator"
where
  "aggregate now tweets a =
     (if length tweets = 0 then (getEmptyMood now, a)
      else
        let rawScore = rawScoreOf tweets;
            (e5, a5) = ema_add rawScore (agg_ema5 a);
            (e15, a15) = ema_add rawScore (agg_ema15 a);
            (e60, a60) = ema_add rawScore (agg_ema60 a);
            pushed = historicalScores a @ [rawScore];
            history = (if length pushed > maxHistorySize then tl pushed else pushed);
            mean = calculateMean history;
            stdDev = calculateStdDev history;
            z = calculateZScore rawScore mean stdDev
        in (\<lparr>mood_timestamp = now, rawScore = rawScore, zScore = z,
             ema5 = e5, ema15 = e15, ema60 = e60,
             volume = length tweets, topicBreakdown = analyzeTopics tweets\<rparr>,
            \<lparr>agg_ema5 = a5, agg_ema15 = a15, agg_ema60 = a60,
             historicalScores = history\<rparr>))"

section \<open>Decisions and execution results (\<open>lib/types.ts\<close>)\<close>

text \<open>
  The reason of a risk verdict and of a decision is a template string in the source. It
  is represented by its template and the numbers interpolated into it; the rendering of
  a number as text (\<open>toFixed\<close>, \<open>toString\<close>) is not modelled.
\<close>

datatype riskReason =
    KillSwitchActive
  | InsufficientTreasury real
  | DailyLimitExceeded real real
  | TooManyLosses nat
  | RiskCheckError

record riskCheck =
  allowed :: bool
  reason :: "riskReason option"

datatype policyAction = HODL_TREASURY | BUYBACK | BURN | NOOP

datatype decisionReason =
    HighSentiment real
  | LowSentiment real
  | BuybackBlocked "riskReason option"
  | BearishCrossover
  | NoClearSignal
  | ErrorInDecisionMaking

record decisionSignals =
  moodZScore :: real
  priceMomentum :: real
  liquidityOk :: bool

record executionParams =
  size_param :: "real option"
  maxSlippage :: "real option"
  dcaFactor :: "real option"

record PolicyDecision =
  decision_timestamp :: nat
  action :: policyAction
  decision_reason :: decisionReason
  signals :: decisionSignals
  executionParams :: "executionParams option"

record MarketSignal =
  market_timestamp :: nat
  price :: real
  priceChange24h :: real
  volume24h :: real
  liquidity :: real
  momentum :: real
  largeTransfers :: real

datatype resultError = Message string | RiskRejected riskReason

record ExecutionResult =
  result_timestamp :: nat
  decision :: PolicyDecision
  txSignature :: "string option"
  success :: bool
  amountProcessed :: "real option"
  error :: "resultError option"

section \<open>The durable store and what surrounds a call\<close>

text \<open>
  The Redis keys the core reads and writes, and the clock that \<open>new Date()\<close> reads (in
  milliseconds). A key with a time to live carries the deadline at which it expires. The
  calendar day of \<open>toISOString().split("T")[0]\<close> is the number of the UTC day. Only
  \<open>set(..., 0)\<close> and \<open>incr\<close> write \<open>risk:consecutive_losses\<close>, so its values are naturals.
\<close>

record world =
  kill_switch :: "string option"
  kill_switch_reason :: "string option"
  treasury_balance :: "real option"
  daily_spent :: "nat \<Rightarrow> (real \<times> nat option) option"
  consecutive_losses :: "nat option"
  last_execution :: "nat option"
  policy_latest :: "PolicyDecision option"
  policy_history :: "nat \<Rightarrow> (PolicyDecision \<times> nat) option"
  policy_timeline :: "nat set"
  execution_latest :: "ExecutionResult option"
  execution_history :: "nat \<Rightarrow> (ExecutionResult \<times> nat) option"
  execution_timeline :: "nat set"
  clock :: nat

definition emptyWorld :: world where
  "emptyWorld =
     \<lparr>kill_switch = None, kill_switch_reason = None, treasury_balance = None,
      daily_spent = (\<lambda>_. None), consecutive_losses = None, last_execution = None,
      policy_latest = None, policy_history = (\<lambda>_. None), policy_timeline = {},
      execution_latest = None, execution_history = (\<lambda>_. None), execution_timeline = {},
      clock = 0\<rparr>"

definition dayOf :: "nat \<Rightarrow> nat" where
  "dayOf ms = ms div 86400000"

text \<open>
  Every Redis command is awaited. At that point the command may fail (the client
  throws), and the other periodic tasks of the process, the treasury refresh among them,
  may run and change the store before the command is served. A call therefore runs
  against a world and a schedule: one step per awaited command, consumed in order; the
  empty schedule is the quiet run in which every command succeeds and nothing else
  touches the store. A command that throws yields \<open>None\<close>.
\<close>

datatype envStep = Fault | Interleave "world \<Rightarrow> world"

type_synonym sys = "world \<times> envStep list"

fun redis :: "(world \<Rightarrow> 'a \<times> world) \<Rightarrow> sys \<Rightarrow> 'a option \<times> sys" where
  "redis cmd (w, []) = (case cmd w of (a, w') \<Rightarrow> (Some a, (w', [])))"
| "redis cmd (w, Fault # env) = (None, (w, env))"
| "redis cmd (w, Interleave f # env) = (case cmd (f w) of (a, w') \<Rightarrow> (Some a, (w', env)))"

text \<open>
  Two steps of a schedule: nothing else runs before the command is served, and the
  treasury refresh of the executor worker stores a new balance (the command that
  \<open>updateTreasuryBalance\<close> issues) before it is served.
\<close>

definition undisturbed :: envStep where
  "undisturbed = Interleave (\<lambda>w. w)"

definition treasuryRefresh :: "real \<Rightarrow> envStep" where
  "treasuryRefresh balance = Interleave (\<lambda>w. w\<lparr>treasury_balance := Some balance\<rparr>)"

text \<open>
  In a schedule without failures, what the other tasks do to the store before the
  command with index \<open>k\<close> of a call is served: the step there, or nothing once the
  schedule is used up.
\<close>

definition stepAt :: "(world \<Rightarrow> world) list \<Rightarrow> nat \<Rightarrow> world \<Rightarrow> world" where
  "stepAt fs k = (if k < length fs then fs ! k else (\<lambda>v. v))"

definition andThen ::
  "'a option \<times> sys \<Rightarrow> ('a \<Rightarrow> sys \<Rightarrow> 'b option \<times> sys) \<Rightarrow> 'b option \<times> sys" where
  "andThen r k = (case r of (None, s) \<Rightarrow> (None, s) | (Some a, s) \<Rightarrow> k a s)"

section \<open>Risk manager (\<open>services/policy/risk-manager.ts\<close>)\<close>

record RiskMetrics =
  dailySpent :: real
  consecutiveLosses :: nat
  lastExecutionTime :: "nat option"
  treasuryBalance :: real
  killSwitchActive :: bool

text \<open>What each private getter makes of the value its \<open>get\<close> returns.\<close>

definition readKillSwitch :: "world \<Rightarrow> bool" where
  "readKillSwitch w = (kill_switch w = Some ''active'')"

definition liveDailySpent :: "nat \<Rightarrow> world \<Rightarrow> real option" where
  "liveDailySpent day w =
     (case daily_spent w day of
        None \<Rightarrow> None
      | Some (v, None) \<Rightarrow> Some v
      | Some (v, Some deadline) \<Rightarrow> if deadline \<le> clock w then None else Some v)"

definition readDailySpent :: "nat \<Rightarrow> world \<Rightarrow> real" where
  "readDailySpent day w = (case liveDailySpent day w of None \<Rightarrow> 0 | Some spent \<Rightarrow> spent)"

definition readConsecutiveLosses :: "world \<Rightarrow> nat" where
  "readConsecutiveLosses w = (case consecutive_losses w of None \<Rightarrow> 0 | Some losses \<Rightarrow> losses)"

definition readTreasuryBalance :: "world \<Rightarrow> real" where
  "readTreasuryBalance w = (case treasury_balance w of None \<Rightarrow> 0 | Some balance \<Rightarrow> balance)"

definition isKillSwitchActive :: "sys \<Rightarrow> bool option \<times> sys" where
  "isKillSwitchActive s = redis (\<lambda>w. (readKillSwitch w, w)) s"

definition getDailySpent :: "sys \<Rightarrow> real option \<times> sys" where
  "getDailySpent s =
     (let today = dayOf (clock (fst s))
      in redis (\<lambda>w. (readDailySpent today w, w)) s)"

definition getConsecutiveLosses :: "sys \<Rightarrow> nat option \<times> sys" where
  "getConsecutiveLosses s = redis (\<lambda>w. (readConsecutiveLosses w, w)) s"

definition getLastExecutionTime :: "sys \<Rightarrow> nat option option \<times> sys" where
  "getLastExecutionTime s = redis (\<lambda>w. (last_execution w, w)) s"

definition getTreasuryBalance :: "sys \<Rightarrow> real option \<times> sys" where
  "getTreasuryBalance s = redis (\<lambda>w. (readTreasuryBalance w, w)) s"

definition updateTreasuryBalance :: "real \<Rightarrow> sys \<Rightarrow> unit option \<times> sys" where
  "updateTreasuryBalance balance s =
     redis (\<lambda>w. ((), w\<lparr>treasury_balance := Some balance\<rparr>)) s"

definition activateKillSwitch :: "string \<Rightarrow> sys \<Rightarrow> unit option \<times> sys" where
  "activateKillSwitch why s =
     andThen (redis (\<lambda>w. ((), w\<lparr>kill_switch := Some ''active''\<rparr>)) s) (\<lambda>_ s1.
       redis (\<lambda>w. ((), w\<lparr>kill_switch_reason := Some why\<rparr>)) s1)"

definition deactivateKillSwitch :: "sys \<Rightarrow> unit option \<times> sys" where
  "deactivateKillSwitch s =
     andThen (redis (\<lambda>w. ((), w\<lparr>kill_switch := None\<rparr>)) s) (\<lambda>_ s1.
       redis (\<lambda>w. ((), w\<lparr>kill_switch_reason := None\<rparr>)) s1)"

definition reject :: "riskReason \<Rightarrow> riskCheck" where
  "reject r = \<lparr>allowed = False, reason = Some r\<rparr>"

text \<open>
  \<open>canExecute\<close>: the body of the \<open>try\<close> is the chain of awaited reads and checks; the
  \<open>catch\<close> turns a failed read into the verdict "Risk check error".
\<close>

definition canExecute :: "policy \<Rightarrow> real \<Rightarrow> sys \<Rightarrow> riskCheck \<times> sys" where
  "canExecute cfg amount s =
     (case
        andThen (isKillSwitchActive s) (\<lambda>killSwitch s1.
          if killSwitch then (Some (reject KillSwitchActive), s1)
          else
            andThen (getTreasuryBalance s1) (\<lambda>treasuryBalance s2.
              let minReserve = treasuryBalance * minTreasuryThreshold cfg
              in if treasuryBalance - amount < minReserve
                 then (Some (reject (InsufficientTreasury minReserve)), s2)
                 else
                   andThen (getDailySpent s2) (\<lambda>dailySpent s3.
                     let maxDailySpend = treasuryBalance * (maxDailySpendPercent cfg / 100)
                     in if dailySpent + amount > maxDailySpend
                        then (Some (reject (DailyLimitExceeded dailySpent maxDailySpend)), s3)
                        else
                          andThen (getConsecutiveLosses s3) (\<lambda>consecutiveLosses s4.
                            if consecutiveLosses \<ge> maxConsecutiveLosses cfg
                            then (Some (reject (TooManyLosses consecutiveLosses)), s4)
                            else (Some \<lparr>allowed = True, reason = None\<rparr>, s4)))))
      of
        (Some verdict, s') \<Rightarrow> (verdict, s')
      | (None, s') \<Rightarrow> (reject RiskCheckError, s'))"

text \<open>The Redis commands of \<open>recordExecution\<close> on the key of one day.\<close>

definition incrbyfloat_daily :: "nat \<Rightarrow> real \<Rightarrow> world \<Rightarrow> unit \<times> world" where
  "incrbyfloat_daily day amount w =
     ((), w\<lparr>daily_spent := (daily_spent w)
              (day := (case daily_spent w day of
                         None \<Rightarrow> Some (amount, None)
                       | Some (v, None) \<Rightarrow> Some (v + amount, None)
                       | Some (v, Some deadline) \<Rightarrow>
                           if deadline \<le> clock w then Some (amount, None)
                           else Some (v + amount, Some deadline)))\<rparr>)"

definition expire_daily :: "nat \<Rightarrow> nat \<Rightarrow> world \<Rightarrow> unit \<times> world" where
  "expire_daily day seconds w =
     ((), (case liveDailySpent day w of
             None \<Rightarrow> w
           | Some v \<Rightarrow>
               w\<lparr>daily_spent := (daily_spent w)
                   (day := Some (v, Some (clock w + seconds * 1000)))\<rparr>))"

definition recordExecution :: "real \<Rightarrow> bool \<Rightarrow> sys \<Rightarrow> sys" where
  "recordExecution amount succeeded s =
     (let today = dayOf (clock (fst s))
      in snd
          (andThen (redis (incrbyfloat_daily today amount) s) (\<lambda>_ s1.
           andThen (redis (expire_daily today (24 * 60 * 60)) s1) (\<lambda>_ s2.
           andThen
             (if succeeded
              then redis (\<lambda>w. ((), w\<lparr>consecutive_losses := Some 0\<rparr>)) s2
              else redis (\<lambda>w. ((), w\<lparr>consecutive_losses :=
                                         Some (readConsecutiveLosses w + 1)\<rparr>)) s2) (\<lambda>_ s3.
           let stamp = clock (fst s3)
           in redis (\<lambda>w. ((), w\<lparr>last_execution := Some stamp\<rparr>)) s3)))))"

text \<open>
  \<open>getRiskMetrics\<close> issues its five reads together (\<open>Promise.all\<close>); all five are served,
  and the call throws when one of them failed.
\<close>

definition getRiskMetrics :: "sys \<Rightarrow> RiskMetrics option \<times> sys" where
  "getRiskMetrics s0 =
     (let (spent, s1) = getDailySpent s0;
          (losses, s2) = getConsecutiveLosses s1;
          (lastExecution, s3) = getLastExecutionTime s2;
          (balance, s4) = getTreasuryBalance s3;
          (killSwitch, s5) = isKillSwitchActive s4;
          metrics =
            (case (spent, losses, lastExecution, balance, killSwitch) of
               (Some a, Some b, Some c, Some d, Some e) \<Rightarrow>
                 Some \<lparr>dailySpent = a, consecutiveLosses = b, lastExecutionTime = c,
                       treasuryBalance = d, killSwitchActive = e\<rparr>
             | _ \<Rightarrow> None)
      in (metrics, s5))"

text \<open>
  Following the specification's words, not the source: a variant of \<open>canExecute\<close> in which
  the daily-limit check reads the treasury balance again instead of using the value that
  the reserve check read. It is compared with \<open>canExecute\<close> below.
\<close>

definition canExecute_fresh_reads_spec :: "policy \<Rightarrow> real \<Rightarrow> sys \<Rightarrow> riskCheck \<times> sys" where
  "canExecute_fresh_reads_spec cfg amount s =
     (case
        andThen (isKillSwitchActive s) (\<lambda>killSwitch s1.
          if killSwitch then (Some (reject KillSwitchActive), s1)
          else
            andThen (getTreasuryBalance s1) (\<lambda>reserveBalance s2.
              let minReserve = reserveBalance * minTreasuryThreshold cfg
              in if reserveBalance - amount < minReserve
                 then (Some (reject (InsufficientTreasury minReserve)), s2)
                 else
                   andThen (getDailySpent s2) (\<lambda>dailySpent s3.
                   andThen (getTreasuryBalance s3) (\<lambda>limitBalance s3'.
                     let maxDailySpend = limitBalance * (maxDailySpendPercent cfg / 100)
                     in if dailySpent + amount > maxDailySpend
                        then (Some (reject (DailyLimitExceeded dailySpent maxDailySpend)), s3')
                        else
                          andThen (getConsecutiveLosses s3') (\<lambda>consecutiveLosses s4.
                            if consecutiveLosses \<ge> maxConsecutiveLosses cfg
                            then (Some (reject (TooManyLosses consecutiveLosses)), s4)
                            else (Some \<lparr>allowed = True, reason = None\<rparr>, s4))))))
      of
        (Some verdict, s') \<Rightarrow> (verdict, s')
      | (None, s') \<Rightarrow> (reject RiskCheckError, s'))"

text \<open>
  The three checks that come before the loss count in \<open>canExecute\<close>, read from one store:
  the kill switch is off, the reserve remains, and the day's limit is kept.
\<close>

definition earlierChecksPass :: "policy \<Rightarrow> real \<Rightarrow> world \<Rightarrow> bool" where
  "earlierChecksPass cfg amount w =
     (\<not> readKillSwitch w
      \<and> \<not> readTreasuryBalance w - amount < readTreasuryBalance w * minTreasuryThreshold cfg
      \<and> \<not> readDailySpent (dayOf (clock w)) w + amount
            > readTreasuryBalance w * (maxDailySpendPercent cfg / 100))"

section \<open>Decision engine (\<open>services/policy/decision-engine.ts\<close>)\<close>

record DecisionEngine =
  ema15History :: "real list"
  ema60History :: "real list"

definition newDecisionEngine :: DecisionEngine where
  "newDecisionEngine = \<lparr>ema15History = [], ema60History = []\<rparr>"

definition detectBearishCrossover :: "DecisionEngine \<Rightarrow> bool" where
  "detectBearishCrossover eng =
     (if length (ema15History eng) < 2 \<or> length (ema60History eng) < 2 then False
      else detectCrossover (ema15History eng) (ema60History eng) = Down)"

definition storeDecision :: "PolicyDecision \<Rightarrow> sys \<Rightarrow> sys" where
  "storeDecision dec s =
     snd
       (andThen (redis (\<lambda>w. ((), w\<lparr>policy_latest := Some dec\<rparr>)) s) (\<lambda>_ s1.
        andThen
          (redis (\<lambda>w. ((), w\<lparr>policy_history := (policy_history w)
                    (decision_timestamp dec :=
                       Some (dec, clock w + 7 * 24 * 60 * 60 * 1000))\<rparr>)) s1) (\<lambda>_ s2.
        redis (\<lambda>w. ((), w\<lparr>policy_timeline :=
                            insert (decision_timestamp dec) (policy_timeline w)\<rparr>)) s2)))"

definition getNoopDecision :: "nat \<Rightarrow> decisionReason \<Rightarrow> PolicyDecision" where
  "getNoopDecision now why =
     \<lparr>decision_timestamp = now, action = NOOP, decision_reason = why,
      signals = \<lparr>moodZScore = 0, priceMomentum = 0, liquidityOk = False\<rparr>,
      executionParams = None\<rparr>"

text \<open>
  \<open>pushHistory\<close> is the first statement block of \<open>makeDecision\<close>: both histories take the
  mood's value, and both drop their oldest entry when the first has grown beyond 100.
\<close>

definition pushHistory :: "real AggregatedMood \<Rightarrow> DecisionEngine \<Rightarrow> DecisionEngine" where
  "pushHistory mood eng =
     (let pushed = \<lparr>ema15History = ema15History eng @ [ema15 mood],
                     ema60History = ema60History eng @ [ema60 mood]\<rparr>
      in if length (ema15History pushed) > 100
         then \<lparr>ema15History = tl (ema15History pushed),
               ema60History = tl (ema60History pushed)\<rparr>
         else pushed)"

text \<open>
  \<open>makeDecision\<close>: the rule chain yields the action, the reason and the execution
  parameters, or \<open>None\<close> when \<open>getRiskMetrics\<close> threw; the \<open>catch\<close> then answers with
  \<open>getNoopDecision\<close>, and nothing is stored.
\<close>

definition makeDecision ::
  "policy \<Rightarrow> real AggregatedMood \<Rightarrow> MarketSignal \<Rightarrow> DecisionEngine \<times> sys
     \<Rightarrow> PolicyDecision \<times> DecisionEngine \<times> sys" where
  "makeDecision cfg mood market es =
     (case es of (eng0, s0) \<Rightarrow>
        let eng = pushHistory mood eng0;
            liquidityIsOk = (liquidity market > 10000);
            chosen =
              (if zScore mood \<ge> hypeThreshold cfg \<and> momentum market \<ge> momentumPositive cfg
               then (Some (HODL_TREASURY, HighSentiment (zScore mood), None), s0)
               else if zScore mood \<le> fudThreshold cfg
                       \<and> momentum market \<le> momentumNegative cfg
               then
                 andThen (getRiskMetrics s0) (\<lambda>metrics s1.
                   let k1 = 0.01;
                       dca = 0.5;
                       buySize = k1 * abs (zScore mood) * treasuryBalance metrics * dca
                   in (case canExecute cfg buySize s1 of
                         (riskCheck, s2) \<Rightarrow>
                           if \<not> allowed riskCheck
                           then (Some (NOOP, BuybackBlocked (reason riskCheck), None), s2)
                           else (Some (BUYBACK, LowSentiment (zScore mood),
                                       Some \<lparr>size_param = Some buySize,
                                             maxSlippage = Some (maxSlippagePercent cfg),
                                             dcaFactor = Some dca\<rparr>), s2)))
               else if detectBearishCrossover eng \<and> liquidityIsOk
               then (Some (BURN, BearishCrossover, None), s0)
               else (Some (NOOP, NoClearSignal, None), s0))
        in (case chosen of
              (None, s') \<Rightarrow>
                (getNoopDecision (clock (fst s')) ErrorInDecisionMaking, eng, s')
            | (Some (act, why, params), s') \<Rightarrow>
                let dec = \<lparr>decision_timestamp = clock (fst s'), action = act,
                           decision_reason = why,
                           signals = \<lparr>moodZScore = zScore mood,
                                      priceMomentum = momentum market,
                                      liquidityOk = liquidityIsOk\<rparr>,
                           executionParams = params\<rparr>
                in (dec, eng, storeDecision dec s')))"

text \<open>
  The engine after a sequence of decision cycles, and the aggregator after a sequence of
  batches (each with the clock value of its call).
\<close>

fun runDecisions ::
  "policy \<Rightarrow> (real AggregatedMood \<times> MarketSignal) list \<Rightarrow> DecisionEngine \<times> sys
     \<Rightarrow> DecisionEngine \<times> sys" where
  "runDecisions cfg [] es = es"
| "runDecisions cfg ((mood, market) # rest) es =
     runDecisions cfg rest (snd (makeDecision cfg mood market es))"

fun runAggregator ::
  "(nat \<times> ProcessedTweet list) list \<Rightarrow> SentimentAggregator \<Rightarrow> SentimentAggregator" where
  "runAggregator [] a = a"
| "runAggregator ((now, tweets) # rest) a = runAggregator rest (snd (aggregate now tweets a))"

section \<open>Chain client (\<open>services/executor/solana-client.ts\<close>)\<close>

text \<open>
  The network behind the client is given by its answers: what the RPC node and the swap
  API return, or the message of the error they throw.
\<close>

datatype sigStatus = NoValue | ValueWithErr | ValueOk

datatype txStatus = Confirmed | Failed | Pending

record chain =
  treasuryPubkey :: "string option"
  tokenAccountBalance :: "string \<Rightarrow> string + real option"
  jupiterSwap :: "string \<Rightarrow> string \<Rightarrow> real \<Rightarrow> real \<Rightarrow> string option"
  burnPrepare :: "string \<Rightarrow> real \<Rightarrow> string option"
  signatureStatus :: "string \<Rightarrow> sigStatus option"




definition getTransactionStatus :: "chain \<Rightarrow> string \<Rightarrow> txStatus" where
  "getTransactionStatus net signature =
     (case signatureStatus net signature of
        None \<Rightarrow> Pending
      | Some NoValue \<Rightarrow> Pending
      | Some ValueWithErr \<Rightarrow> Failed
      | Some ValueOk \<Rightarrow> Confirmed)"

section \<open>Executor (\<open>services/executor/executor.ts\<close>)\<close>

text \<open>
  \<open>pendingExecutions\<close> is a JavaScript \<open>Map\<close>: an association list in insertion order;
  \<open>set\<close> replaces the value of a key in place or appends, \<open>delete\<close> removes the key.
\<close>

type_synonym pendingMap = "(string \<times> PolicyDecision) list"


definition pending_delete :: "string \<Rightarrow> pendingMap \<Rightarrow> pendingMap" where
  "pending_delete k pending = filter (\<lambda>entry. fst entry \<noteq> k) pending"




text \<open>
  \<open>decision.executionParams?.size\<close> when it is truthy (present and not 0), and the
  operands of \<open>size || 0\<close> and \<open>maxSlippage || 2\<close>.
\<close>

definition truthySize :: "PolicyDecision \<Rightarrow> real option" where
  "truthySize dec =
     (case executionParams dec of
        None \<Rightarrow> None
      | Some params \<Rightarrow>
          (case size_param params of
             None \<Rightarrow> None
           | Some v \<Rightarrow> if v = 0 then None else Some v))"

definition sizeOrZero :: "PolicyDecision \<Rightarrow> real" where
  "sizeOrZero dec = (case truthySize dec of None \<Rightarrow> 0 | Some v \<Rightarrow> v)"






text \<open>
  \<open>monitorPendingTransactions\<close>: one pass over the entries of the map. Neither
  \<open>getTransactionStatus\<close> nor \<open>recordExecution\<close> throws, so the \<open>catch\<close> in the loop has no
  run of its own.
\<close>

fun monitorLoop :: "chain \<Rightarrow> pendingMap \<Rightarrow> pendingMap \<times> sys \<Rightarrow> pendingMap \<times> sys" where
  "monitorLoop net [] ps = ps"
| "monitorLoop net ((sig, dec) # rest) (pending, s) =
     (case getTransactionStatus net sig of
        Confirmed \<Rightarrow> monitorLoop net rest (pending_delete sig pending, s)
      | Failed \<Rightarrow>
          monitorLoop net rest
            (pending_delete sig pending, recordExecution (sizeOrZero dec) False s)
      | Pending \<Rightarrow> monitorLoop net rest (pending, s))"

definition monitorPendingTransactions :: "chain \<Rightarrow> pendingMap \<times> sys \<Rightarrow> pendingMap \<times> sys" where
  "monitorPendingTransactions net ps = monitorLoop net (fst ps) ps"

section \<open>Sample inputs\<close>

text \<open>Concrete values at which the theorems below are instantiated.\<close>

definition sampleMood :: "real \<Rightarrow> real AggregatedMood" where
  "sampleMood z =
     \<lparr>mood_timestamp = 0, rawScore = 0, zScore = z, ema5 = 0, ema15 = 1, ema60 = 2,
      volume = 1, topicBreakdown = \<lparr>ourCoin = 0, generalMarket = 1\<rparr>\<rparr>"

definition sampleMarket :: "real \<Rightarrow> real \<Rightarrow> MarketSignal" where
  "sampleMarket m l =
     \<lparr>market_timestamp = 0, price = 1, priceChange24h = 0, volume24h = 0, liquidity = l,
      momentum = m, largeTransfers = 0\<rparr>"

definition sampleTweet :: ProcessedTweet where
  "sampleTweet =
     \<lparr>tweet_text = ''gm'', sentiment = \<lparr>score_value = 1, confidence = 1\<rparr>,
      authorWeight = 1\<rparr>"

definition fullEngine :: DecisionEngine where
  "fullEngine = \<lparr>ema15History = replicate 100 3, ema60History = replicate 100 4\<rparr>"

definition fullAggregator :: SentimentAggregator where
  "fullAggregator = (newSentimentAggregator config_policy)\<lparr>historicalScores := replicate 1000 0\<rparr>"

definition sampleDecision :: "policyAction \<Rightarrow> real option \<Rightarrow> PolicyDecision" where
  "sampleDecision act sz =
     \<lparr>decision_timestamp = 0, action = act, decision_reason = NoClearSignal,
      signals = \<lparr>moodZScore = 0, priceMomentum = 0, liquidityOk = True\<rparr>,
      executionParams =
        (case sz of
           None \<Rightarrow> None
         | Some v \<Rightarrow> Some \<lparr>size_param = Some v, maxSlippage = Some 2, dcaFactor = Some 0.5\<rparr>)\<rparr>"



definition sampleChain :: "(string \<Rightarrow> sigStatus option) \<Rightarrow> chain" where
  "sampleChain statuses =
     \<lparr>treasuryPubkey = Some ''treasury'', tokenAccountBalance = (\<lambda>_. Inr (Some 10)),
      jupiterSwap = (\<lambda>_ _ _ _. None), burnPrepare = (\<lambda>_ _. None),
      signatureStatus = statuses\<rparr>"


section \<open>Properties of the mathematical utilities\<close>

text \<open>
  C9: with standard deviation zero the z-score is the finite number 0, whatever the value
  and the mean are: the guard answers before the quotient is taken, so no division by
  zero happens and the result is neither \<open>NaN\<close> nor an infinity. With a standard deviation
  other than zero the result is the quotient of the deviation by the standard deviation:
  the finite number \<open>(value - mean) / stdDev\<close> when neither the difference nor the
  quotient overflows, and an infinity when one of them does, as for the value \<open>2^1023\<close>
  with mean \<open>-2^1023\<close>, and for the deviation 1 over the smallest positive double.
\<close>

theorem calculateZScore_guarded:
  "calculateZScore v mean 0 = Finite 0
   \<and> calculateZScore v mean stdDev
       = (if stdDev = 0 then Finite 0
          else if \<bar>v - mean\<bar> < overflowLimit \<and> \<bar>(v - mean) / stdDev\<bar> < overflowLimit
          then Finite ((v - mean) / stdDev)
          else NonFinite)
   \<and> calculateZScore 3 1 2 = Finite 1
   \<and> calculateZScore (2 ^ 1023) (- (2 ^ 1023)) 1 = NonFinite
   \<and> calculateZScore 1 0 (1 / 2 ^ 1074) = NonFinite"
proof -
  have small: "\<bar>2 :: real\<bar> < overflowLimit" "\<bar>1 :: real\<bar> < overflowLimit"
    by (simp_all add: overflowLimit_def)
  have big: "\<not> \<bar>2 ^ 1023 - - (2 ^ 1023) :: real\<bar> < overflowLimit"
    by (simp add: overflowLimit_def)
  have tiny: "calculateZScore 1 0 (1 / 2 ^ 1074) = NonFinite"
    by (simp add: calculateZScore_def js_subtract_def toDouble_def overflowLimit_def)
  show ?thesis
    using small big tiny
    by (simp add: calculateZScore_def js_subtract_def toDouble_def)
qed

text \<open>
  C6: \<open>detectCrossover\<close> answers \<open>NoCross\<close> (the source's \<open>"none"\<close>) when either series has
  fewer than two points. Otherwise only the last two samples of each series count: the
  answer is \<open>Down\<close> exactly when the fast series was at or above the slow one and is now
  strictly below it, \<open>Up\<close> exactly when it was at or below and is now strictly above, and
  \<open>NoCross\<close> in every other case, in particular when the current values are equal. The
  three sample series of the specification give \<open>Down\<close>, \<open>Up\<close> and \<open>NoCross\<close>.
\<close>

theorem detectCrossover_last_two:
  "(detectCrossover fast slow = Down) =
     (2 \<le> length fast \<and> 2 \<le> length slow
      \<and> last (butlast fast) \<ge> last (butlast slow) \<and> last fast < last slow)
   \<and> (detectCrossover fast slow = Up) =
     (2 \<le> length fast \<and> 2 \<le> length slow
      \<and> last (butlast fast) \<le> last (butlast slow) \<and> last fast > last slow)
   \<and> (detectCrossover fast slow = NoCross) =
     (length fast < 2 \<or> length slow < 2
      \<or> \<not> (last (butlast fast) \<ge> last (butlast slow) \<and> last fast < last slow)
        \<and> \<not> (last (butlast fast) \<le> last (butlast slow) \<and> last fast > last slow))
   \<and> (last fast = last slow \<longrightarrow> detectCrossover fast slow = NoCross)
   \<and> detectCrossover [10, 4] [8, 8] = Down
   \<and> detectCrossover [4, 10] [8, 8] = Up
   \<and> detectCrossover [10, 10] [8, 8] = NoCross"
proof -
  have idx: "xs ! (length xs - 1) = last xs \<and> xs ! (length xs - 2) = last (butlast xs)"
    if "2 \<le> length xs" for xs :: "real list"
  proof -
    from that have ne: "xs \<noteq> []" and ne': "butlast xs \<noteq> []"
      by (auto simp: length_0_conv [symmetric] simp del: length_0_conv)
    have "last (butlast xs) = butlast xs ! (length (butlast xs) - 1)"
      using ne' by (rule last_conv_nth)
    also have "\<dots> = xs ! (length xs - 2)"
      using that by (simp add: nth_butlast numeral_2_eq_2)
    finally show ?thesis
      using ne by (simp add: last_conv_nth)
  qed
  show ?thesis
  proof (cases "2 \<le> length fast \<and> 2 \<le> length slow")
    case True
    with idx [of fast] idx [of slow] show ?thesis
      by (simp add: detectCrossover_def Let_def not_less)
  next
    case False
    then show ?thesis
      by (auto simp: detectCrossover_def Let_def)
  qed
qed

theorem detectCrossover_last_two_witness:
  "last [10, 8 :: real] = last [3, 8] \<and> detectCrossover [10, 8] [3, 8] = NoCross"
  using detectCrossover_last_two [of "[10, 8]" "[3, 8]"] by simp

section \<open>Properties of the sentiment aggregator\<close>

text \<open>
  C4: on the empty batch \<open>aggregate\<close> returns the zeroed mood (raw score, z-score, the
  three EMA values and the volume are 0) and the aggregator it leaves behind is the one
  it was given: the score history, hence its length, and the three EMA accumulators are
  unchanged.
\<close>

theorem aggregate_empty_batch:
  "snd (aggregate now [] a) = a
   \<and> historicalScores (snd (aggregate now [] a)) = historicalScores a
   \<and> length (historicalScores (snd (aggregate now [] a))) = length (historicalScores a)
   \<and> agg_ema5 (snd (aggregate now [] a)) = agg_ema5 a
   \<and> agg_ema15 (snd (aggregate now [] a)) = agg_ema15 a
   \<and> agg_ema60 (snd (aggregate now [] a)) = agg_ema60 a
   \<and> rawScore (fst (aggregate now [] a)) = 0
   \<and> zScore (fst (aggregate now [] a)) = Finite 0
   \<and> ema5 (fst (aggregate now [] a)) = 0
   \<and> ema15 (fst (aggregate now [] a)) = 0
   \<and> ema60 (fst (aggregate now [] a)) = 0
   \<and> volume (fst (aggregate now [] a)) = 0
   \<and> topicBreakdown (fst (aggregate now [] a)) = \<lparr>ourCoin = 0, generalMarket = 0\<rparr>"
  by (simp add: aggregate_def getEmptyMood_def)

section \<open>The risk manager in a quiet run\<close>

lemma canExecute_quiet:
  "canExecute cfg amount (w, []) =
     ((if readKillSwitch w then reject KillSwitchActive
       else if readTreasuryBalance w - amount < readTreasuryBalance w * minTreasuryThreshold cfg
         then reject (InsufficientTreasury (readTreasuryBalance w * minTreasuryThreshold cfg))
       else if readDailySpent (dayOf (clock w)) w + amount
                 > readTreasuryBalance w * (maxDailySpendPercent cfg / 100)
         then reject (DailyLimitExceeded (readDailySpent (dayOf (clock w)) w)
                        (readTreasuryBalance w * (maxDailySpendPercent cfg / 100)))
       else if readConsecutiveLosses w \<ge> maxConsecutiveLosses cfg
         then reject (TooManyLosses (readConsecutiveLosses w))
       else \<lparr>allowed = True, reason = None\<rparr>), (w, []))"
  by (simp add: canExecute_def andThen_def isKillSwitchActive_def getTreasuryBalance_def
      getDailySpent_def getConsecutiveLosses_def Let_def)

lemma canExecute_fault_first: "\<not> allowed (fst (canExecute cfg amount (w, Fault # env)))"
  by (simp add: canExecute_def andThen_def isKillSwitchActive_def reject_def)

lemma canExecute_kill_switch_after_step:
  "readKillSwitch (f w) \<Longrightarrow>
     canExecute cfg amount (w, Interleave f # env) = (reject KillSwitchActive, (f w, env))"
  by (simp add: canExecute_def andThen_def isKillSwitchActive_def)

lemma recordExecution_quiet:
  "recordExecution amount succeeded (w, []) =
     (w\<lparr>daily_spent := (daily_spent w)
          (dayOf (clock w) :=
             Some (readDailySpent (dayOf (clock w)) w + amount, Some (clock w + 86400000))),
        consecutive_losses := Some (if succeeded then 0 else readConsecutiveLosses w + 1),
        last_execution := Some (clock w)\<rparr>, [])"
  by (simp add: recordExecution_def andThen_def incrbyfloat_daily_def expire_daily_def
      liveDailySpent_def readDailySpent_def readConsecutiveLosses_def Let_def
      split: option.splits prod.splits)

lemma recordExecution_views:
  "snd (recordExecution amount succeeded (w, [])) = []"
  "readDailySpent (dayOf (clock w)) (fst (recordExecution amount succeeded (w, [])))
     = readDailySpent (dayOf (clock w)) w + amount"
  "readConsecutiveLosses (fst (recordExecution amount succeeded (w, [])))
     = (if succeeded then 0 else readConsecutiveLosses w + 1)"
  "last_execution (fst (recordExecution amount succeeded (w, []))) = Some (clock w)"
  "clock (fst (recordExecution amount succeeded (w, []))) = clock w"
  "readTreasuryBalance (fst (recordExecution amount succeeded (w, []))) = readTreasuryBalance w"
  "readKillSwitch (fst (recordExecution amount succeeded (w, []))) = readKillSwitch w"
  by (simp_all add: recordExecution_quiet readDailySpent_def liveDailySpent_def
      readConsecutiveLosses_def readTreasuryBalance_def readKillSwitch_def)

lemma recordExecution_quiet_pair:
  "recordExecution amount succeeded (w, []) =
     (fst (recordExecution amount succeeded (w, [])), [])"
  by (simp add: recordExecution_quiet)

text \<open>
  C1: in a quiet run \<open>canExecute\<close> is the ordered chain kill switch, treasury reserve,
  daily limit, consecutive losses, and the first check that fails gives the reason; the
  store is left as it was. While the kill switch is active every amount is rejected:
  in the quiet run, when the read of the switch fails, and when the store another task
  leaves behind still has the switch active. With balance 1000 and reserve threshold
  0.1 the amount 950 is rejected (for the reserve of 100 when the switch is off), and
  850 is allowed when the kill-switch, daily-limit and loss checks pass.
\<close>

theorem canExecute_ordered_chain:
  "canExecute cfg amount (w, []) =
     ((if readKillSwitch w then reject KillSwitchActive
       else if readTreasuryBalance w - amount < readTreasuryBalance w * minTreasuryThreshold cfg
         then reject (InsufficientTreasury (readTreasuryBalance w * minTreasuryThreshold cfg))
       else if readDailySpent (dayOf (clock w)) w + amount
                 > readTreasuryBalance w * (maxDailySpendPercent cfg / 100)
         then reject (DailyLimitExceeded (readDailySpent (dayOf (clock w)) w)
                        (readTreasuryBalance w * (maxDailySpendPercent cfg / 100)))
       else if readConsecutiveLosses w \<ge> maxConsecutiveLosses cfg
         then reject (TooManyLosses (readConsecutiveLosses w))
       else \<lparr>allowed = True, reason = None\<rparr>), (w, []))
   \<and> (readKillSwitch w \<longrightarrow>
        fst (canExecute cfg amount (w, [])) = reject KillSwitchActive
        \<and> \<not> allowed (fst (canExecute cfg amount (w, Fault # env))))
   \<and> (readKillSwitch (f w) \<longrightarrow>
        fst (canExecute cfg amount (w, Interleave f # env)) = reject KillSwitchActive)
   \<and> (readTreasuryBalance w = 1000 \<and> minTreasuryThreshold cfg = 0.1 \<longrightarrow>
        \<not> allowed (fst (canExecute cfg 950 (w, [])))
        \<and> (\<not> readKillSwitch w \<longrightarrow>
             fst (canExecute cfg 950 (w, [])) = reject (InsufficientTreasury 100))
        \<and> (\<not> readKillSwitch w
             \<and> \<not> readDailySpent (dayOf (clock w)) w + 850 > 1000 * (maxDailySpendPercent cfg / 100)
             \<and> \<not> readConsecutiveLosses w \<ge> maxConsecutiveLosses cfg \<longrightarrow>
             fst (canExecute cfg 850 (w, [])) = \<lparr>allowed = True, reason = None\<rparr>))"
proof (intro conjI impI)
  show "canExecute cfg amount (w, []) =
     ((if readKillSwitch w then reject KillSwitchActive
       else if readTreasuryBalance w - amount < readTreasuryBalance w * minTreasuryThreshold cfg
         then reject (InsufficientTreasury (readTreasuryBalance w * minTreasuryThreshold cfg))
       else if readDailySpent (dayOf (clock w)) w + amount
                 > readTreasuryBalance w * (maxDailySpendPercent cfg / 100)
         then reject (DailyLimitExceeded (readDailySpent (dayOf (clock w)) w)
                        (readTreasuryBalance w * (maxDailySpendPercent cfg / 100)))
       else if readConsecutiveLosses w \<ge> maxConsecutiveLosses cfg
         then reject (TooManyLosses (readConsecutiveLosses w))
       else \<lparr>allowed = True, reason = None\<rparr>), (w, []))"
    by (rule canExecute_quiet)
next
  assume "readKillSwitch w"
  then show "fst (canExecute cfg amount (w, [])) = reject KillSwitchActive"
    by (simp add: canExecute_quiet)
next
  show "\<not> allowed (fst (canExecute cfg amount (w, Fault # env)))"
    by (rule canExecute_fault_first)
next
  assume "readKillSwitch (f w)"
  then show "fst (canExecute cfg amount (w, Interleave f # env)) = reject KillSwitchActive"
    by (simp add: canExecute_kill_switch_after_step)
next
  assume "readTreasuryBalance w = 1000 \<and> minTreasuryThreshold cfg = 0.1"
  then have b: "readTreasuryBalance w = 1000" and t: "minTreasuryThreshold cfg = 0.1"
    by blast+
  show "\<not> allowed (fst (canExecute cfg 950 (w, [])))"
    by (simp add: canExecute_quiet reject_def b t)
next
  assume "readTreasuryBalance w = 1000 \<and> minTreasuryThreshold cfg = 0.1"
  then have b: "readTreasuryBalance w = 1000" and t: "minTreasuryThreshold cfg = 0.1"
    by blast+
  assume "\<not> readKillSwitch w"
  then show "fst (canExecute cfg 950 (w, [])) = reject (InsufficientTreasury 100)"
    by (simp add: canExecute_quiet b t)
next
  assume "readTreasuryBalance w = 1000 \<and> minTreasuryThreshold cfg = 0.1"
  then have b: "readTreasuryBalance w = 1000" and t: "minTreasuryThreshold cfg = 0.1"
    by blast+
  assume "\<not> readKillSwitch w
         \<and> \<not> readDailySpent (dayOf (clock w)) w + 850 > 1000 * (maxDailySpendPercent cfg / 100)
         \<and> \<not> readConsecutiveLosses w \<ge> maxConsecutiveLosses cfg"
  then show "fst (canExecute cfg 850 (w, [])) = \<lparr>allowed = True, reason = None\<rparr>"
    by (simp add: canExecute_quiet b t)
qed

theorem canExecute_ordered_chain_witness:
  "readKillSwitch (emptyWorld\<lparr>kill_switch := Some ''active''\<rparr>)
   \<and> fst (canExecute config_policy 1 (emptyWorld\<lparr>kill_switch := Some ''active''\<rparr>, []))
       = reject KillSwitchActive
   \<and> readKillSwitch ((\<lambda>w. w\<lparr>kill_switch := Some ''active''\<rparr>) emptyWorld)
   \<and> fst (canExecute config_policy 1
            (emptyWorld, [Interleave (\<lambda>w. w\<lparr>kill_switch := Some ''active''\<rparr>)]))
       = reject KillSwitchActive
   \<and> readTreasuryBalance (emptyWorld\<lparr>treasury_balance := Some 1000\<rparr>) = 1000
   \<and> minTreasuryThreshold (config_policy\<lparr>maxDailySpendPercent := 100\<rparr>) = 0.1
   \<and> \<not> readKillSwitch (emptyWorld\<lparr>treasury_balance := Some 1000\<rparr>)
   \<and> fst (canExecute (config_policy\<lparr>maxDailySpendPercent := 100\<rparr>) 950
            (emptyWorld\<lparr>treasury_balance := Some 1000\<rparr>, []))
       = reject (InsufficientTreasury 100)
   \<and> fst (canExecute (config_policy\<lparr>maxDailySpendPercent := 100\<rparr>) 850
            (emptyWorld\<lparr>treasury_balance := Some 1000\<rparr>, []))
       = \<lparr>allowed = True, reason = None\<rparr>"
  using canExecute_ordered_chain
          [of config_policy 1 "emptyWorld\<lparr>kill_switch := Some ''active''\<rparr>" "[]"
              "\<lambda>w. w"]
        canExecute_ordered_chain
          [of config_policy 1 emptyWorld "[]" "\<lambda>w. w\<lparr>kill_switch := Some ''active''\<rparr>"]
        canExecute_ordered_chain
          [of "config_policy\<lparr>maxDailySpendPercent := 100\<rparr>" 1
              "emptyWorld\<lparr>treasury_balance := Some 1000\<rparr>" "[]" "\<lambda>w. w"]
  by (simp add: emptyWorld_def config_policy_def readKillSwitch_def readTreasuryBalance_def
      readDailySpent_def liveDailySpent_def readConsecutiveLosses_def)


text \<open>
  C3, as the code has it: in a quiet run \<open>recordExecution\<close> adds the amount to the spend
  counter of the current UTC day, the day of the clock at the call, whether or not the
  execution succeeded; the counter of that day expires 24 hours after the call and the
  counters of other days are untouched. It sets the loss counter to 0 on success, adds
  exactly 1 to it on failure, and stamps the time of the last execution. With
  \<open>maxConsecutiveLosses = 3\<close>, after three failed executions every amount is rejected;
  the reason returned is the loss count when the kill-switch, reserve and daily-limit
  checks pass, and the reason of the first of those checks that fails otherwise. After
  one more, successful, execution the amount is allowed when those three checks pass.
\<close>

theorem recordExecution_counters:
  "recordExecution amount succeeded (w, [])
     = (fst (recordExecution amount succeeded (w, [])), [])
   \<and> dayOf (clock w) = clock w div 86400000
   \<and> daily_spent (fst (recordExecution amount succeeded (w, []))) (clock w div 86400000)
       = Some (readDailySpent (clock w div 86400000) w + amount, Some (clock w + 86400000))
   \<and> (d \<noteq> clock w div 86400000 \<longrightarrow>
        daily_spent (fst (recordExecution amount succeeded (w, []))) d = daily_spent w d)
   \<and> readDailySpent (dayOf (clock w)) (fst (recordExecution amount succeeded (w, [])))
       = readDailySpent (dayOf (clock w)) w + amount
   \<and> readConsecutiveLosses (fst (recordExecution amount True (w, []))) = 0
   \<and> readConsecutiveLosses (fst (recordExecution amount False (w, [])))
       = readConsecutiveLosses w + 1
   \<and> last_execution (fst (recordExecution amount succeeded (w, []))) = Some (clock w)
   \<and> (maxConsecutiveLosses cfg = 3 \<longrightarrow>
        (let s3 = recordExecution x False
                    (recordExecution x False (recordExecution x False (w, [])));
             s4 = recordExecution x True s3
         in \<not> allowed (fst (canExecute cfg a s3))
            \<and> (earlierChecksPass cfg a (fst s3) \<longrightarrow>
                 fst (canExecute cfg a s3)
                   = reject (TooManyLosses (readConsecutiveLosses w + 3)))
            \<and> (\<not> earlierChecksPass cfg a (fst s3) \<longrightarrow>
                 fst (canExecute cfg a s3)
                   \<in> {reject KillSwitchActive,
                       reject (InsufficientTreasury
                                 (readTreasuryBalance w * minTreasuryThreshold cfg)),
                       reject (DailyLimitExceeded
                                 (readDailySpent (dayOf (clock w)) (fst s3))
                                 (readTreasuryBalance w * (maxDailySpendPercent cfg / 100)))})
            \<and> (earlierChecksPass cfg a (fst s4) \<longrightarrow>
                 fst (canExecute cfg a s4) = \<lparr>allowed = True, reason = None\<rparr>)))"
proof -
  define w1 where "w1 = fst (recordExecution x False (w, []))"
  define w2 where "w2 = fst (recordExecution x False (w1, []))"
  define w3 where "w3 = fst (recordExecution x False (w2, []))"
  define w4 where "w4 = fst (recordExecution x True (w3, []))"
  have s1: "recordExecution x False (w, []) = (w1, [])"
    unfolding w1_def by (rule recordExecution_quiet_pair)
  have s2: "recordExecution x False (w1, []) = (w2, [])"
    unfolding w2_def by (rule recordExecution_quiet_pair)
  have s3: "recordExecution x False (w2, []) = (w3, [])"
    unfolding w3_def by (rule recordExecution_quiet_pair)
  have s4: "recordExecution x True (w3, []) = (w4, [])"
    unfolding w4_def by (rule recordExecution_quiet_pair)
  have l3: "readConsecutiveLosses w3 = readConsecutiveLosses w + 3"
    unfolding w3_def w2_def w1_def by (simp add: recordExecution_views)
  have l4: "readConsecutiveLosses w4 = 0"
    unfolding w4_def by (simp add: recordExecution_views)
  have c3: "clock w3 = clock w" "readTreasuryBalance w3 = readTreasuryBalance w"
    unfolding w3_def w2_def w1_def by (simp_all add: recordExecution_views)
  have seq:
    "maxConsecutiveLosses cfg = 3 \<longrightarrow>
       \<not> allowed (fst (canExecute cfg a (w3, [])))
       \<and> (earlierChecksPass cfg a w3 \<longrightarrow>
            fst (canExecute cfg a (w3, []))
              = reject (TooManyLosses (readConsecutiveLosses w + 3)))
       \<and> (\<not> earlierChecksPass cfg a w3 \<longrightarrow>
            fst (canExecute cfg a (w3, []))
              \<in> {reject KillSwitchActive,
                  reject (InsufficientTreasury
                            (readTreasuryBalance w * minTreasuryThreshold cfg)),
                  reject (DailyLimitExceeded
                            (readDailySpent (dayOf (clock w)) w3)
                            (readTreasuryBalance w * (maxDailySpendPercent cfg / 100)))})
       \<and> (earlierChecksPass cfg a w4 \<longrightarrow>
            fst (canExecute cfg a (w4, [])) = \<lparr>allowed = True, reason = None\<rparr>)"
    by (simp add: canExecute_quiet earlierChecksPass_def l3 l4 c3 reject_def)
  have day: "dayOf (clock w) = clock w div 86400000"
    by (simp add: dayOf_def)
  have key: "daily_spent (fst (recordExecution amount succeeded (w, []))) (clock w div 86400000)
       = Some (readDailySpent (clock w div 86400000) w + amount, Some (clock w + 86400000))"
    by (simp add: recordExecution_quiet dayOf_def)
  have others: "d \<noteq> clock w div 86400000 \<longrightarrow>
        daily_spent (fst (recordExecution amount succeeded (w, []))) d = daily_spent w d"
    by (simp add: recordExecution_quiet dayOf_def)
  have after3:
    "let s3 = recordExecution x False
                (recordExecution x False (recordExecution x False (w, [])));
         s4 = recordExecution x True s3
     in \<not> allowed (fst (canExecute cfg a s3))
        \<and> (earlierChecksPass cfg a (fst s3) \<longrightarrow>
             fst (canExecute cfg a s3)
               = reject (TooManyLosses (readConsecutiveLosses w + 3)))
        \<and> (\<not> earlierChecksPass cfg a (fst s3) \<longrightarrow>
             fst (canExecute cfg a s3)
               \<in> {reject KillSwitchActive,
                   reject (InsufficientTreasury
                             (readTreasuryBalance w * minTreasuryThreshold cfg)),
                   reject (DailyLimitExceeded
                             (readDailySpent (dayOf (clock w)) (fst s3))
                             (readTreasuryBalance w * (maxDailySpendPercent cfg / 100)))})
        \<and> (earlierChecksPass cfg a (fst s4) \<longrightarrow>
             fst (canExecute cfg a s4) = \<lparr>allowed = True, reason = None\<rparr>)"
    if "maxConsecutiveLosses cfg = 3"
    unfolding Let_def s1 s2 s3 s4 fst_conv using seq that by blast
  have pair: "recordExecution amount succeeded (w, [])
                = (fst (recordExecution amount succeeded (w, [])), [])"
    by (rule recordExecution_quiet_pair)
  have spent: "readDailySpent (dayOf (clock w)) (fst (recordExecution amount succeeded (w, [])))
                 = readDailySpent (dayOf (clock w)) w + amount"
    by (simp add: recordExecution_views)
  have won: "readConsecutiveLosses (fst (recordExecution amount True (w, []))) = 0"
    and lost: "readConsecutiveLosses (fst (recordExecution amount False (w, [])))
                 = readConsecutiveLosses w + 1"
    by (simp_all add: recordExecution_views)
  have stamp: "last_execution (fst (recordExecution amount succeeded (w, []))) = Some (clock w)"
    by (simp add: recordExecution_views)
  from pair day key others spent won lost stamp after3 show ?thesis
    by blast
qed

theorem recordExecution_counters_witness:
  "maxConsecutiveLosses config_policy = 3
   \<and> (0 :: nat) \<noteq> clock (emptyWorld\<lparr>treasury_balance := Some 1000, clock := 172800005\<rparr>)
                 div 86400000
   \<and> daily_spent
        (fst (recordExecution 10 False
           (emptyWorld\<lparr>treasury_balance := Some 1000, clock := 172800005\<rparr>, []))) 2
       = Some (10, Some 259200005)
   \<and> daily_spent
        (fst (recordExecution 10 False
           (emptyWorld\<lparr>treasury_balance := Some 1000, clock := 172800005\<rparr>, []))) 0
       = None
   \<and> earlierChecksPass config_policy 1
        (fst (recordExecution 10 False (recordExecution 10 False (recordExecution 10 False
           (emptyWorld\<lparr>treasury_balance := Some 1000, clock := 172800005\<rparr>, [])))))
   \<and> fst (canExecute config_policy 1
        (recordExecution 10 False (recordExecution 10 False (recordExecution 10 False
           (emptyWorld\<lparr>treasury_balance := Some 1000, clock := 172800005\<rparr>, [])))))
       = reject (TooManyLosses 3)
   \<and> \<not> earlierChecksPass config_policy 21
        (fst (recordExecution 10 False (recordExecution 10 False (recordExecution 10 False
           (emptyWorld\<lparr>treasury_balance := Some 1000, clock := 172800005\<rparr>, [])))))
   \<and> \<not> allowed (fst (canExecute config_policy 21
        (recordExecution 10 False (recordExecution 10 False (recordExecution 10 False
           (emptyWorld\<lparr>treasury_balance := Some 1000, clock := 172800005\<rparr>, []))))))
   \<and> earlierChecksPass config_policy 1
        (fst (recordExecution 10 True
           (recordExecution 10 False (recordExecution 10 False (recordExecution 10 False
              (emptyWorld\<lparr>treasury_balance := Some 1000, clock := 172800005\<rparr>, []))))))
   \<and> fst (canExecute config_policy 1
        (recordExecution 10 True
           (recordExecution 10 False (recordExecution 10 False (recordExecution 10 False
              (emptyWorld\<lparr>treasury_balance := Some 1000, clock := 172800005\<rparr>, []))))))
       = \<lparr>allowed = True, reason = None\<rparr>"
  using recordExecution_counters
          [of 10 False "emptyWorld\<lparr>treasury_balance := Some 1000, clock := 172800005\<rparr>"
              0 config_policy 10 1]
        recordExecution_counters
          [of 10 False "emptyWorld\<lparr>treasury_balance := Some 1000, clock := 172800005\<rparr>"
              0 config_policy 10 21]
  by (simp add: Let_def recordExecution_quiet earlierChecksPass_def emptyWorld_def
      config_policy_def readKillSwitch_def readTreasuryBalance_def readDailySpent_def
      liveDailySpent_def readConsecutiveLosses_def dayOf_def reject_def)

text \<open>
  The claim as it is stated fails: after three failed executions of 20 each against a
  balance of 1000 the day's counter stands at 60, above the limit of 50, and the daily
  limit, which the chain checks before the loss count, gives the reason.
\<close>

theorem recordExecution_loss_reason_counterexample:
  "maxConsecutiveLosses config_policy = 3
   \<and> fst (canExecute config_policy 1
        (recordExecution 20 False (recordExecution 20 False (recordExecution 20 False
           (emptyWorld\<lparr>treasury_balance := Some 1000\<rparr>, [])))))
       = reject (DailyLimitExceeded 60 50)
   \<and> fst (canExecute config_policy 1
        (recordExecution 20 False (recordExecution 20 False (recordExecution 20 False
           (emptyWorld\<lparr>treasury_balance := Some 1000\<rparr>, [])))))
       \<noteq> reject (TooManyLosses 3)"
  by (simp add: canExecute_quiet recordExecution_quiet emptyWorld_def
      config_policy_def readKillSwitch_def readTreasuryBalance_def readDailySpent_def
      liveDailySpent_def readConsecutiveLosses_def dayOf_def reject_def)

section \<open>The treasury balance within one risk check\<close>

lemma canExecute_three_steps:
  "fst (canExecute cfg amount (w, [Interleave f1, Interleave f2, Interleave f3])) =
     (if readKillSwitch (f1 w) then reject KillSwitchActive
      else if readTreasuryBalance (f2 (f1 w)) - amount
                < readTreasuryBalance (f2 (f1 w)) * minTreasuryThreshold cfg
        then reject (InsufficientTreasury
                       (readTreasuryBalance (f2 (f1 w)) * minTreasuryThreshold cfg))
      else if readDailySpent (dayOf (clock (f2 (f1 w)))) (f3 (f2 (f1 w))) + amount
                > readTreasuryBalance (f2 (f1 w)) * (maxDailySpendPercent cfg / 100)
        then reject (DailyLimitExceeded
                       (readDailySpent (dayOf (clock (f2 (f1 w)))) (f3 (f2 (f1 w))))
                       (readTreasuryBalance (f2 (f1 w)) * (maxDailySpendPercent cfg / 100)))
      else if readConsecutiveLosses (f3 (f2 (f1 w))) \<ge> maxConsecutiveLosses cfg
        then reject (TooManyLosses (readConsecutiveLosses (f3 (f2 (f1 w)))))
      else \<lparr>allowed = True, reason = None\<rparr>)"
  by (simp add: canExecute_def andThen_def isKillSwitchActive_def getTreasuryBalance_def
      getDailySpent_def getConsecutiveLosses_def Let_def)

lemma canExecute_four_steps:
  "canExecute cfg amount
     (w, Interleave f1 # Interleave f2 # Interleave f3 # Interleave f4 # env) =
     (if readKillSwitch (f1 w)
      then (reject KillSwitchActive,
            (f1 w, Interleave f2 # Interleave f3 # Interleave f4 # env))
      else if readTreasuryBalance (f2 (f1 w)) - amount
                < readTreasuryBalance (f2 (f1 w)) * minTreasuryThreshold cfg
        then (reject (InsufficientTreasury
                        (readTreasuryBalance (f2 (f1 w)) * minTreasuryThreshold cfg)),
              (f2 (f1 w), Interleave f3 # Interleave f4 # env))
      else if readDailySpent (dayOf (clock (f2 (f1 w)))) (f3 (f2 (f1 w))) + amount
                > readTreasuryBalance (f2 (f1 w)) * (maxDailySpendPercent cfg / 100)
        then (reject (DailyLimitExceeded
                        (readDailySpent (dayOf (clock (f2 (f1 w)))) (f3 (f2 (f1 w))))
                        (readTreasuryBalance (f2 (f1 w)) * (maxDailySpendPercent cfg / 100))),
              (f3 (f2 (f1 w)), Interleave f4 # env))
      else if readConsecutiveLosses (f4 (f3 (f2 (f1 w)))) \<ge> maxConsecutiveLosses cfg
        then (reject (TooManyLosses (readConsecutiveLosses (f4 (f3 (f2 (f1 w)))))),
              (f4 (f3 (f2 (f1 w))), env))
      else (\<lparr>allowed = True, reason = None\<rparr>, (f4 (f3 (f2 (f1 w))), env)))"
  by (simp add: canExecute_def andThen_def isKillSwitchActive_def getTreasuryBalance_def
      getDailySpent_def getConsecutiveLosses_def Let_def)

lemma canExecute_any_interleaving:
  "canExecute cfg amount (w, map Interleave fs) =
     (let w1 = stepAt fs 0 w; w2 = stepAt fs 1 w1; w3 = stepAt fs 2 w2; w4 = stepAt fs 3 w3;
          balance = readTreasuryBalance w2
      in if readKillSwitch w1
         then (reject KillSwitchActive, (w1, map Interleave (drop 1 fs)))
         else if balance - amount < balance * minTreasuryThreshold cfg
         then (reject (InsufficientTreasury (balance * minTreasuryThreshold cfg)),
               (w2, map Interleave (drop 2 fs)))
         else if readDailySpent (dayOf (clock w2)) w3 + amount
                   > balance * (maxDailySpendPercent cfg / 100)
         then (reject (DailyLimitExceeded (readDailySpent (dayOf (clock w2)) w3)
                         (balance * (maxDailySpendPercent cfg / 100))),
               (w3, map Interleave (drop 3 fs)))
         else if readConsecutiveLosses w4 \<ge> maxConsecutiveLosses cfg
         then (reject (TooManyLosses (readConsecutiveLosses w4)),
               (w4, map Interleave (drop 4 fs)))
         else (\<lparr>allowed = True, reason = None\<rparr>, (w4, map Interleave (drop 4 fs))))"
proof -
  consider "fs = []" | a where "fs = [a]" | a b where "fs = [a, b]"
    | a b c where "fs = [a, b, c]" | a b c d more where "fs = a # b # c # d # more"
    by (metis list.exhaust)
  then show ?thesis
    by cases
       (simp_all add: canExecute_def andThen_def isKillSwitchActive_def getTreasuryBalance_def
          getDailySpent_def getConsecutiveLosses_def Let_def stepAt_def)
qed

text \<open>
  C7, as the code has it: within one call \<open>canExecute\<close> reads the treasury balance from
  the store at most once, as the second command of the call, after the kill-switch read
  and before the reserve check, and the daily-limit check uses the value read then. The
  schedule left over shows the commands a call issued: one when the kill switch is
  active or its read fails (the balance is not read at all), two when the balance read
  fails or the reserve check rejects, three when the daily limit rejects, four otherwise;
  the store is returned as the last command was served it. Under any interleaving
  of other tasks, of any length, the verdict is the chain evaluated with the balance
  served to the second command; what the store holds afterwards enters the verdict only
  through the day's counter and the loss counter, so a balance stored by another task
  after the read does not change the verdict.
\<close>

theorem canExecute_reads_balance_once:
  "canExecute cfg amount (w, map Interleave fs) =
     (let w1 = stepAt fs 0 w; w2 = stepAt fs 1 w1; w3 = stepAt fs 2 w2; w4 = stepAt fs 3 w3;
          balance = readTreasuryBalance w2
      in if readKillSwitch w1
         then (reject KillSwitchActive, (w1, map Interleave (drop 1 fs)))
         else if balance - amount < balance * minTreasuryThreshold cfg
         then (reject (InsufficientTreasury (balance * minTreasuryThreshold cfg)),
               (w2, map Interleave (drop 2 fs)))
         else if readDailySpent (dayOf (clock w2)) w3 + amount
                   > balance * (maxDailySpendPercent cfg / 100)
         then (reject (DailyLimitExceeded (readDailySpent (dayOf (clock w2)) w3)
                         (balance * (maxDailySpendPercent cfg / 100))),
               (w3, map Interleave (drop 3 fs)))
         else if readConsecutiveLosses w4 \<ge> maxConsecutiveLosses cfg
         then (reject (TooManyLosses (readConsecutiveLosses w4)),
               (w4, map Interleave (drop 4 fs)))
         else (\<lparr>allowed = True, reason = None\<rparr>, (w4, map Interleave (drop 4 fs))))
   \<and> canExecute cfg amount
     (w, Interleave f1 # Interleave f2 # Interleave f3 # Interleave f4 # env) =
     (if readKillSwitch (f1 w)
      then (reject KillSwitchActive,
            (f1 w, Interleave f2 # Interleave f3 # Interleave f4 # env))
      else if readTreasuryBalance (f2 (f1 w)) - amount
                < readTreasuryBalance (f2 (f1 w)) * minTreasuryThreshold cfg
        then (reject (InsufficientTreasury
                        (readTreasuryBalance (f2 (f1 w)) * minTreasuryThreshold cfg)),
              (f2 (f1 w), Interleave f3 # Interleave f4 # env))
      else if readDailySpent (dayOf (clock (f2 (f1 w)))) (f3 (f2 (f1 w))) + amount
                > readTreasuryBalance (f2 (f1 w)) * (maxDailySpendPercent cfg / 100)
        then (reject (DailyLimitExceeded
                        (readDailySpent (dayOf (clock (f2 (f1 w)))) (f3 (f2 (f1 w))))
                        (readTreasuryBalance (f2 (f1 w)) * (maxDailySpendPercent cfg / 100))),
              (f3 (f2 (f1 w)), Interleave f4 # env))
      else if readConsecutiveLosses (f4 (f3 (f2 (f1 w)))) \<ge> maxConsecutiveLosses cfg
        then (reject (TooManyLosses (readConsecutiveLosses (f4 (f3 (f2 (f1 w)))))),
              (f4 (f3 (f2 (f1 w))), env))
      else (\<lparr>allowed = True, reason = None\<rparr>, (f4 (f3 (f2 (f1 w))), env)))
   \<and> (readKillSwitch (f1 w) \<longrightarrow>
        canExecute cfg amount (w, Interleave f1 # rest)
          = (reject KillSwitchActive, (f1 w, rest)))
   \<and> canExecute cfg amount (w, Fault # rest) = (reject RiskCheckError, (w, rest))
   \<and> (\<not> readKillSwitch (f1 w) \<longrightarrow>
        canExecute cfg amount (w, Interleave f1 # Fault # rest)
          = (reject RiskCheckError, (f1 w, rest)))
   \<and> (readDailySpent (dayOf (clock (f2 (f1 w)))) (g3 (f2 (f1 w)))
          = readDailySpent (dayOf (clock (f2 (f1 w)))) (f3 (f2 (f1 w)))
        \<and> readConsecutiveLosses (g4 (g3 (f2 (f1 w))))
          = readConsecutiveLosses (f4 (f3 (f2 (f1 w)))) \<longrightarrow>
        fst (canExecute cfg amount
               (w, Interleave f1 # Interleave f2 # Interleave g3 # Interleave g4 # env))
          = fst (canExecute cfg amount
               (w, Interleave f1 # Interleave f2 # Interleave f3 # Interleave f4 # env)))
   \<and> fst (canExecute cfg amount (w, [Interleave f1, Interleave f2, Interleave f3])) =
     (if readKillSwitch (f1 w) then reject KillSwitchActive
      else if readTreasuryBalance (f2 (f1 w)) - amount
                < readTreasuryBalance (f2 (f1 w)) * minTreasuryThreshold cfg
        then reject (InsufficientTreasury
                       (readTreasuryBalance (f2 (f1 w)) * minTreasuryThreshold cfg))
      else if readDailySpent (dayOf (clock (f2 (f1 w)))) (f3 (f2 (f1 w))) + amount
                > readTreasuryBalance (f2 (f1 w)) * (maxDailySpendPercent cfg / 100)
        then reject (DailyLimitExceeded
                       (readDailySpent (dayOf (clock (f2 (f1 w)))) (f3 (f2 (f1 w))))
                       (readTreasuryBalance (f2 (f1 w)) * (maxDailySpendPercent cfg / 100)))
      else if readConsecutiveLosses (f3 (f2 (f1 w))) \<ge> maxConsecutiveLosses cfg
        then reject (TooManyLosses (readConsecutiveLosses (f3 (f2 (f1 w)))))
      else \<lparr>allowed = True, reason = None\<rparr>)
   \<and> fst (canExecute cfg amount
            (w, [Interleave f1, Interleave f2,
                 Interleave (\<lambda>v. (f3 v)\<lparr>treasury_balance := Some balance\<rparr>)]))
       = fst (canExecute cfg amount (w, [Interleave f1, Interleave f2, Interleave f3]))"
proof (intro conjI impI)
  have spent: "readDailySpent d (v\<lparr>treasury_balance := Some balance\<rparr>) = readDailySpent d v"
    for d v
    by (simp add: readDailySpent_def liveDailySpent_def split: option.splits prod.splits)
  have losses: "readConsecutiveLosses (v\<lparr>treasury_balance := Some balance\<rparr>)
                  = readConsecutiveLosses v" for v
    by (simp add: readConsecutiveLosses_def)
  show "fst (canExecute cfg amount
            (w, [Interleave f1, Interleave f2,
                 Interleave (\<lambda>v. (f3 v)\<lparr>treasury_balance := Some balance\<rparr>)]))
       = fst (canExecute cfg amount (w, [Interleave f1, Interleave f2, Interleave f3]))"
    by (simp only: canExecute_three_steps spent losses)
next
  assume "readKillSwitch (f1 w)"
  then show "canExecute cfg amount (w, Interleave f1 # rest)
               = (reject KillSwitchActive, (f1 w, rest))"
    by (rule canExecute_kill_switch_after_step)
next
  show "canExecute cfg amount (w, Fault # rest) = (reject RiskCheckError, (w, rest))"
    by (simp add: canExecute_def andThen_def isKillSwitchActive_def)
next
  assume "\<not> readKillSwitch (f1 w)"
  then show "canExecute cfg amount (w, Interleave f1 # Fault # rest)
               = (reject RiskCheckError, (f1 w, rest))"
    by (simp add: canExecute_def andThen_def isKillSwitchActive_def getTreasuryBalance_def)
next
  assume "readDailySpent (dayOf (clock (f2 (f1 w)))) (g3 (f2 (f1 w)))
            = readDailySpent (dayOf (clock (f2 (f1 w)))) (f3 (f2 (f1 w)))
          \<and> readConsecutiveLosses (g4 (g3 (f2 (f1 w))))
            = readConsecutiveLosses (f4 (f3 (f2 (f1 w))))"
  then show "fst (canExecute cfg amount
               (w, Interleave f1 # Interleave f2 # Interleave g3 # Interleave g4 # env))
          = fst (canExecute cfg amount
               (w, Interleave f1 # Interleave f2 # Interleave f3 # Interleave f4 # env))"
    by (simp add: canExecute_four_steps)
qed (rule canExecute_any_interleaving canExecute_four_steps canExecute_three_steps)+

theorem canExecute_reads_balance_once_witness:
  "readKillSwitch (emptyWorld\<lparr>kill_switch := Some ''active''\<rparr>)
   \<and> canExecute config_policy 40
        (emptyWorld, [Interleave (\<lambda>v. v\<lparr>kill_switch := Some ''active''\<rparr>), Fault, Fault])
       = (reject KillSwitchActive, (emptyWorld\<lparr>kill_switch := Some ''active''\<rparr>, [Fault, Fault]))
   \<and> \<not> readKillSwitch emptyWorld
   \<and> canExecute config_policy 40 (emptyWorld, [Interleave (\<lambda>v. v), Fault, Fault])
       = (reject RiskCheckError, (emptyWorld, [Fault]))
   \<and> readDailySpent 0 (emptyWorld\<lparr>treasury_balance := Some 100\<rparr>)
       = readDailySpent 0 (emptyWorld\<lparr>treasury_balance := Some 1000\<rparr>)
   \<and> fst (canExecute config_policy 40
            (emptyWorld,
             [Interleave (\<lambda>v. v), Interleave (\<lambda>v. v\<lparr>treasury_balance := Some 1000\<rparr>),
              Interleave (\<lambda>v. v\<lparr>treasury_balance := Some 100\<rparr>), Interleave (\<lambda>v. v)]))
       = fst (canExecute config_policy 40
            (emptyWorld,
             [Interleave (\<lambda>v. v), Interleave (\<lambda>v. v\<lparr>treasury_balance := Some 1000\<rparr>),
              Interleave (\<lambda>v. v), Interleave (\<lambda>v. v)]))"
proof -
  have k: "readKillSwitch ((\<lambda>v. v\<lparr>kill_switch := Some ''active''\<rparr>) emptyWorld)"
    "\<not> readKillSwitch ((\<lambda>v. v) emptyWorld)"
    by (simp_all add: readKillSwitch_def emptyWorld_def)
  have c: "readDailySpent (dayOf (clock ((\<lambda>v. v\<lparr>treasury_balance := Some 1000\<rparr>) ((\<lambda>v. v) emptyWorld))))
             ((\<lambda>v. v\<lparr>treasury_balance := Some 100\<rparr>)
                ((\<lambda>v. v\<lparr>treasury_balance := Some 1000\<rparr>) ((\<lambda>v. v) emptyWorld)))
           = readDailySpent (dayOf (clock ((\<lambda>v. v\<lparr>treasury_balance := Some 1000\<rparr>) ((\<lambda>v. v) emptyWorld))))
               ((\<lambda>v. v) ((\<lambda>v. v\<lparr>treasury_balance := Some 1000\<rparr>) ((\<lambda>v. v) emptyWorld)))
         \<and> readConsecutiveLosses
             ((\<lambda>v. v) ((\<lambda>v. v\<lparr>treasury_balance := Some 100\<rparr>)
                ((\<lambda>v. v\<lparr>treasury_balance := Some 1000\<rparr>) ((\<lambda>v. v) emptyWorld))))
           = readConsecutiveLosses
               ((\<lambda>v. v) ((\<lambda>v. v) ((\<lambda>v. v\<lparr>treasury_balance := Some 1000\<rparr>) ((\<lambda>v. v) emptyWorld))))"
    by (simp add: readDailySpent_def liveDailySpent_def readConsecutiveLosses_def emptyWorld_def)
  have d: "readDailySpent 0 (emptyWorld\<lparr>treasury_balance := Some 100\<rparr>)
             = readDailySpent 0 (emptyWorld\<lparr>treasury_balance := Some 1000\<rparr>)"
    by (simp add: readDailySpent_def liveDailySpent_def emptyWorld_def)
  note t1 = canExecute_reads_balance_once
              [of config_policy 40 emptyWorld _ "\<lambda>v. v\<lparr>kill_switch := Some ''active''\<rparr>"
                  _ _ _ _ "[Fault, Fault]", THEN conjunct2, THEN conjunct2, THEN conjunct1,
               THEN mp, OF k(1)]
  note t2 = canExecute_reads_balance_once
              [of config_policy 40 emptyWorld _ "\<lambda>v. v" _ _ _ _ "[Fault]",
               THEN conjunct2, THEN conjunct2, THEN conjunct2, THEN conjunct2,
               THEN conjunct1, THEN mp, OF k(2)]
  note t3 = canExecute_reads_balance_once
              [of config_policy 40 emptyWorld _ "\<lambda>v. v"
                  "\<lambda>v. v\<lparr>treasury_balance := Some 1000\<rparr>" "\<lambda>v. v" "\<lambda>v. v" "[]" _
                  "\<lambda>v. v\<lparr>treasury_balance := Some 100\<rparr>" "\<lambda>v. v",
               THEN conjunct2, THEN conjunct2, THEN conjunct2, THEN conjunct2,
               THEN conjunct2, THEN conjunct1, THEN mp, OF c]
  from k t1 t2 t3 d show ?thesis
    by simp
qed

text \<open>
  The claim as it is stated fails: the balance is 1000 when the reserve check reads it,
  the treasury refresh stores 100 before the day's spend is read, and the amount 40 is
  allowed against the limit of 50 computed from the stale 1000, whereas a check that read
  the balance afresh would reject it against the limit of 5.
\<close>

theorem canExecute_fresh_read_counterexample:
  "fst (canExecute config_policy 40
          (emptyWorld\<lparr>treasury_balance := Some 1000\<rparr>,
           [undisturbed, undisturbed, treasuryRefresh 100]))
     = \<lparr>allowed = True, reason = None\<rparr>
   \<and> fst (canExecute_fresh_reads_spec config_policy 40
          (emptyWorld\<lparr>treasury_balance := Some 1000\<rparr>,
           [undisturbed, undisturbed, treasuryRefresh 100]))
     = reject (DailyLimitExceeded 0 5)
   \<and> readTreasuryBalance
        (fst (snd (canExecute config_policy 40
          (emptyWorld\<lparr>treasury_balance := Some 1000\<rparr>,
           [undisturbed, undisturbed, treasuryRefresh 100])))) = 100
   \<and> fst (canExecute config_policy 40
          (emptyWorld\<lparr>treasury_balance := Some 1000\<rparr>,
           [undisturbed, undisturbed, treasuryRefresh 100]))
     \<noteq> fst (canExecute_fresh_reads_spec config_policy 40
          (emptyWorld\<lparr>treasury_balance := Some 1000\<rparr>,
           [undisturbed, undisturbed, treasuryRefresh 100]))"
  by (simp add: canExecute_def canExecute_fresh_reads_spec_def andThen_def
      undisturbed_def treasuryRefresh_def
      isKillSwitchActive_def getTreasuryBalance_def getDailySpent_def
      getConsecutiveLosses_def Let_def emptyWorld_def config_policy_def reject_def
      readKillSwitch_def readTreasuryBalance_def readDailySpent_def liveDailySpent_def
      readConsecutiveLosses_def)

section \<open>Bounded histories\<close>

lemma window_snoc:
  "(let pushed = drop (length xs - n) xs @ [x]
    in if length pushed > n then tl pushed else pushed)
     = drop (length (xs @ [x]) - n) (xs @ [x])" if "0 < n"
proof (cases "length xs < n")
  case True
  then show ?thesis by (simp add: Let_def)
next
  case False
  then have "length (drop (length xs - n) xs @ [x]) > n"
    using that by simp
  moreover have "tl (drop (length xs - n) xs @ [x]) = drop (length (xs @ [x]) - n) (xs @ [x])"
  proof -
    have ne: "drop (length xs - n) xs \<noteq> []"
      using that False by simp
    have "tl (drop (length xs - n) xs @ [x]) = drop (Suc (length xs - n)) xs @ [x]"
      using ne by (simp add: drop_Suc tl_drop)
    also have "\<dots> = drop (Suc (length xs - n)) (xs @ [x])"
      using that False by simp
    also have "Suc (length xs - n) = length (xs @ [x]) - n"
      using False by simp
    finally show ?thesis .
  qed
  ultimately show ?thesis by (simp add: Let_def)
qed

lemma makeDecision_engine:
  "fst (snd (makeDecision cfg mood market (eng, s))) = pushHistory mood eng"
  by (simp add: makeDecision_def Let_def split: prod.splits option.splits)

lemma pushHistory_window:
  assumes "ema15History eng = drop (length xs - 100) xs"
    and "ema60History eng = drop (length ys - 100) ys"
    and "length xs = length ys"
  shows "ema15History (pushHistory mood eng)
           = drop (length (xs @ [ema15 mood]) - 100) (xs @ [ema15 mood])
         \<and> ema60History (pushHistory mood eng)
           = drop (length (ys @ [ema60 mood]) - 100) (ys @ [ema60 mood])"
proof -
  have len: "length (ema15History eng @ [ema15 mood]) = length (ema60History eng @ [ema60 mood])"
    using assms by simp
  have a: "ema15History (pushHistory mood eng)
             = (let pushed = ema15History eng @ [ema15 mood]
                in if length pushed > 100 then tl pushed else pushed)"
    by (simp add: pushHistory_def Let_def)
  have b: "ema60History (pushHistory mood eng)
             = (let pushed = ema60History eng @ [ema60 mood]
                in if length pushed > 100 then tl pushed else pushed)"
    using len by (simp add: pushHistory_def Let_def)
  show ?thesis
    unfolding a b assms(1) assms(2)
    using window_snoc [of 100 xs "ema15 mood"] window_snoc [of 100 ys "ema60 mood"]
    by simp
qed

lemma runDecisions_window:
  assumes "ema15History eng = drop (length xs - 100) xs"
    and "ema60History eng = drop (length ys - 100) ys"
    and "length xs = length ys"
  shows "ema15History (fst (runDecisions cfg inputs (eng, s)))
           = drop (length (xs @ map (ema15 \<circ> fst) inputs) - 100)
               (xs @ map (ema15 \<circ> fst) inputs)
         \<and> ema60History (fst (runDecisions cfg inputs (eng, s)))
           = drop (length (ys @ map (ema60 \<circ> fst) inputs) - 100)
               (ys @ map (ema60 \<circ> fst) inputs)"
  using assms
proof (induction inputs arbitrary: eng s xs ys)
  case Nil
  then show ?case by simp
next
  case (Cons input inputs)
  obtain mood market where input: "input = (mood, market)" by (cases input)
  obtain dec eng' s' where step: "makeDecision cfg mood market (eng, s) = (dec, eng', s')"
    by (cases "makeDecision cfg mood market (eng, s)")
  have eng': "eng' = pushHistory mood eng"
    using makeDecision_engine [of cfg mood market eng s] step by simp
  have win: "ema15History eng' = drop (length (xs @ [ema15 mood]) - 100) (xs @ [ema15 mood])"
    "ema60History eng' = drop (length (ys @ [ema60 mood]) - 100) (ys @ [ema60 mood])"
    using pushHistory_window [OF Cons.prems, of mood] eng' by simp_all
  have "length (xs @ [ema15 mood]) = length (ys @ [ema60 mood])"
    using Cons.prems(3) by simp
  from Cons.IH [OF win this, of s'] show ?case
    by (simp add: input step)
qed

lemma aggregate_history:
  "historicalScores (snd (aggregate now tweets a))
     = (if tweets = [] then historicalScores a
        else let pushed = historicalScores a @ [rawScoreOf tweets]
             in if length pushed > 1000 then tl pushed else pushed)"
  by (simp add: aggregate_def Let_def maxHistorySize_def split: prod.splits)

lemma runAggregator_window:
  assumes "historicalScores a = drop (length xs - 1000) xs"
  shows "historicalScores (runAggregator batches a)
           = drop (length (xs @ map rawScoreOf (filter (\<lambda>b. b \<noteq> []) (map snd batches)))
                     - 1000)
               (xs @ map rawScoreOf (filter (\<lambda>b. b \<noteq> []) (map snd batches)))"
  using assms
proof (induction batches arbitrary: a xs)
  case Nil
  then show ?case by simp
next
  case (Cons batch batches)
  obtain now tweets where batch: "batch = (now, tweets)" by (cases batch)
  show ?case
  proof (cases "tweets = []")
    case True
    then have "historicalScores (snd (aggregate now tweets a)) = drop (length xs - 1000) xs"
      using Cons.prems by (simp add: aggregate_history)
    from Cons.IH [OF this] show ?thesis
      using True by (simp add: batch)
  next
    case False
    then have "historicalScores (snd (aggregate now tweets a))
                 = drop (length (xs @ [rawScoreOf tweets]) - 1000) (xs @ [rawScoreOf tweets])"
      using window_snoc [of 1000 xs "rawScoreOf tweets"] Cons.prems
      by (simp add: aggregate_history)
    from Cons.IH [OF this] show ?thesis
      using False by (simp add: batch)
  qed
qed

text \<open>
  C8: whatever rule fires and whatever happens to the store, \<open>makeDecision\<close> leaves the
  engine with the mood's \<open>ema15\<close> and \<open>ema60\<close> pushed onto their histories. From a new
  engine, after any sequence of decisions, the two histories are the last 100 values of
  the two streams in order: they have the same length, at most 100, and the oldest value
  is the one that leaves. A full buffer loses its first entry to take the new one.
  Likewise the aggregator's score history is the last 1000 raw scores of the non-empty
  batches.
\<close>

theorem histories_are_bounded_windows:
  "fst (snd (makeDecision cfg mood market (eng, s))) = pushHistory mood eng
   \<and> last (ema15History (pushHistory mood eng)) = ema15 mood
   \<and> (length (ema15History eng) = length (ema60History eng) \<longrightarrow>
        last (ema60History (pushHistory mood eng)) = ema60 mood
        \<and> length (ema15History (pushHistory mood eng))
            = length (ema60History (pushHistory mood eng))
        \<and> (length (ema15History eng) \<le> 100 \<longrightarrow>
             length (ema15History (pushHistory mood eng)) \<le> 100)
        \<and> (length (ema15History eng) = 100 \<longrightarrow>
             ema15History (pushHistory mood eng) = tl (ema15History eng) @ [ema15 mood]
             \<and> ema60History (pushHistory mood eng) = tl (ema60History eng) @ [ema60 mood]))
   \<and> ema15History (fst (runDecisions cfg inputs (newDecisionEngine, s)))
       = drop (length inputs - 100) (map (ema15 \<circ> fst) inputs)
   \<and> ema60History (fst (runDecisions cfg inputs (newDecisionEngine, s)))
       = drop (length inputs - 100) (map (ema60 \<circ> fst) inputs)
   \<and> length (ema15History (fst (runDecisions cfg inputs (newDecisionEngine, s))))
       = length (ema60History (fst (runDecisions cfg inputs (newDecisionEngine, s))))
   \<and> length (ema15History (fst (runDecisions cfg inputs (newDecisionEngine, s)))) \<le> 100
   \<and> historicalScores (runAggregator batches (newSentimentAggregator cfg))
       = drop (length (filter (\<lambda>b. b \<noteq> []) (map snd batches)) - 1000)
           (map rawScoreOf (filter (\<lambda>b. b \<noteq> []) (map snd batches)))
   \<and> length (historicalScores (runAggregator batches (newSentimentAggregator cfg))) \<le> 1000
   \<and> (tweets \<noteq> [] \<longrightarrow>
        last (historicalScores (snd (aggregate now tweets a))) = rawScoreOf tweets
        \<and> (length (historicalScores a) \<le> 1000 \<longrightarrow>
             length (historicalScores (snd (aggregate now tweets a))) \<le> 1000)
        \<and> (length (historicalScores a) = 1000 \<longrightarrow>
             historicalScores (snd (aggregate now tweets a))
               = tl (historicalScores a) @ [rawScoreOf tweets]))"
proof -
  have run: "ema15History (fst (runDecisions cfg inputs (newDecisionEngine, s)))
               = drop (length inputs - 100) (map (ema15 \<circ> fst) inputs)
             \<and> ema60History (fst (runDecisions cfg inputs (newDecisionEngine, s)))
               = drop (length inputs - 100) (map (ema60 \<circ> fst) inputs)"
    using runDecisions_window [of newDecisionEngine "[]" "[]" cfg inputs s]
    by (simp add: newDecisionEngine_def)
  have agg: "historicalScores (runAggregator batches (newSentimentAggregator cfg))
       = drop (length (filter (\<lambda>b. b \<noteq> []) (map snd batches)) - 1000)
           (map rawScoreOf (filter (\<lambda>b. b \<noteq> []) (map snd batches)))"
    using runAggregator_window [of "newSentimentAggregator cfg" "[]" batches]
    by (simp add: newSentimentAggregator_def)
  have last15: "last (ema15History (pushHistory mood eng)) = ema15 mood"
    by (cases "ema15History eng") (auto simp: pushHistory_def Let_def last_tl)
  have step: "length (ema15History eng) = length (ema60History eng) \<longrightarrow>
        last (ema60History (pushHistory mood eng)) = ema60 mood
        \<and> length (ema15History (pushHistory mood eng))
            = length (ema60History (pushHistory mood eng))
        \<and> (length (ema15History eng) \<le> 100 \<longrightarrow>
             length (ema15History (pushHistory mood eng)) \<le> 100)
        \<and> (length (ema15History eng) = 100 \<longrightarrow>
             ema15History (pushHistory mood eng) = tl (ema15History eng) @ [ema15 mood]
             \<and> ema60History (pushHistory mood eng) = tl (ema60History eng) @ [ema60 mood])"
    by (cases "ema15History eng"; cases "ema60History eng")
       (auto simp: pushHistory_def Let_def last_tl)
  have aggstep: "tweets \<noteq> [] \<longrightarrow>
        last (historicalScores (snd (aggregate now tweets a))) = rawScoreOf tweets
        \<and> (length (historicalScores a) \<le> 1000 \<longrightarrow>
             length (historicalScores (snd (aggregate now tweets a))) \<le> 1000)
        \<and> (length (historicalScores a) = 1000 \<longrightarrow>
             historicalScores (snd (aggregate now tweets a))
               = tl (historicalScores a) @ [rawScoreOf tweets])"
    by (cases "historicalScores a") (auto simp: aggregate_history Let_def last_tl)
  have lens: "length (ema15History (fst (runDecisions cfg inputs (newDecisionEngine, s))))
       = length (ema60History (fst (runDecisions cfg inputs (newDecisionEngine, s))))"
    "length (ema15History (fst (runDecisions cfg inputs (newDecisionEngine, s)))) \<le> 100"
    using run by simp_all
  have agglen:
    "length (historicalScores (runAggregator batches (newSentimentAggregator cfg))) \<le> 1000"
    unfolding agg by simp
  note eng = makeDecision_engine [of cfg mood market eng s]
  from eng last15 step run [THEN conjunct1] run [THEN conjunct2] lens agg agglen aggstep
  show ?thesis
    by blast
qed

theorem histories_are_bounded_windows_witness:
  "length (ema15History fullEngine) = length (ema60History fullEngine)
   \<and> length (ema15History fullEngine) \<le> 100
   \<and> length (ema15History fullEngine) = 100
   \<and> last (ema60History (pushHistory (sampleMood 0) fullEngine)) = ema60 (sampleMood 0)
   \<and> length (ema15History (pushHistory (sampleMood 0) fullEngine)) \<le> 100
   \<and> ema15History (pushHistory (sampleMood 0) fullEngine)
       = tl (ema15History fullEngine) @ [ema15 (sampleMood 0)]
   \<and> [sampleTweet] \<noteq> []
   \<and> length (historicalScores fullAggregator) \<le> 1000
   \<and> length (historicalScores fullAggregator) = 1000
   \<and> length (historicalScores (snd (aggregate 0 [sampleTweet] fullAggregator))) \<le> 1000
   \<and> historicalScores (snd (aggregate 0 [sampleTweet] fullAggregator))
       = tl (historicalScores fullAggregator) @ [rawScoreOf [sampleTweet]]"
  using histories_are_bounded_windows
          [of config_policy "sampleMood 0" "sampleMarket 0 0" fullEngine "(emptyWorld, [])"
              "[]" "[]" "[sampleTweet]" 0 fullAggregator]
  by (simp add: fullEngine_def fullAggregator_def)


section \<open>The decision rules\<close>

lemma getRiskMetrics_quiet:
  "getRiskMetrics (w, []) =
     (Some \<lparr>dailySpent = readDailySpent (dayOf (clock w)) w,
            consecutiveLosses = readConsecutiveLosses w,
            lastExecutionTime = last_execution w,
            treasuryBalance = readTreasuryBalance w,
            killSwitchActive = readKillSwitch w\<rparr>, (w, []))"
  by (simp add: getRiskMetrics_def getDailySpent_def getConsecutiveLosses_def
      getLastExecutionTime_def getTreasuryBalance_def isKillSwitchActive_def Let_def)

lemma detectBearishCrossover_iff:
  "detectBearishCrossover eng
     = (detectCrossover (ema15History eng) (ema60History eng) = Down)"
  by (simp add: detectBearishCrossover_def detectCrossover_def)

lemma makeDecision_quiet:
  "fst (makeDecision cfg mood market (eng, (w, []))) =
     (let buySize = 0.01 * abs (zScore mood) * readTreasuryBalance w * 0.5;
          verdict = fst (canExecute cfg buySize (w, []));
          hype = (zScore mood \<ge> hypeThreshold cfg \<and> momentum market \<ge> momentumPositive cfg);
          fud = (zScore mood \<le> fudThreshold cfg \<and> momentum market \<le> momentumNegative cfg);
          burn = (detectCrossover (ema15History (pushHistory mood eng))
                    (ema60History (pushHistory mood eng)) = Down
                  \<and> liquidity market > 10000)
      in \<lparr>decision_timestamp = clock w,
          action = (if hype then HODL_TREASURY
                    else if fud then (if allowed verdict then BUYBACK else NOOP)
                    else if burn then BURN else NOOP),
          decision_reason =
            (if hype then HighSentiment (zScore mood)
             else if fud
               then (if allowed verdict then LowSentiment (zScore mood)
                     else BuybackBlocked (reason verdict))
             else if burn then BearishCrossover else NoClearSignal),
          signals = \<lparr>moodZScore = zScore mood, priceMomentum = momentum market,
                     liquidityOk = (liquidity market > 10000)\<rparr>,
          executionParams =
            (if \<not> hype \<and> fud \<and> allowed verdict
             then Some \<lparr>size_param = Some buySize,
                        maxSlippage = Some (maxSlippagePercent cfg),
                        dcaFactor = Some 0.5\<rparr>
             else None)\<rparr>)"
  by (simp add: makeDecision_def Let_def andThen_def getRiskMetrics_quiet
      detectBearishCrossover_iff canExecute_quiet)

text \<open>
  C2: in a quiet run \<open>makeDecision\<close> takes the first rule that matches. (1) Hype: z-score
  and momentum at or above their thresholds give \<open>HODL_TREASURY\<close> without execution
  parameters. (2) Otherwise FUD: z-score and momentum at or below their thresholds give
  a buyback of size \<open>0.01 * |zScore| * treasuryBalance * 0.5\<close>, which \<open>canExecute\<close> judges
  at once; allowed, the decision is \<open>BUYBACK\<close> with exactly that size; rejected, it is
  \<open>NOOP\<close> carrying the rejection reason and no execution parameters. (3) Otherwise a
  down-crossover of the two histories, the current mood included, with liquidity above
  10000 gives \<open>BURN\<close> without parameters. (4) Otherwise \<open>NOOP\<close>, no clear signal. With the
  configured thresholds, z-score 2.0 and momentum 0.01 give \<open>HODL_TREASURY\<close>, and z-score
  -1.5 with momentum -0.01 gives the buyback or its downgrade.
\<close>

theorem makeDecision_first_match_wins:
  "(let dec = fst (makeDecision cfg mood market (eng, (w, [])));
        buySize = 0.01 * abs (zScore mood) * readTreasuryBalance w * 0.5;
        verdict = fst (canExecute cfg buySize (w, []));
        hype = (zScore mood \<ge> hypeThreshold cfg \<and> momentum market \<ge> momentumPositive cfg);
        fud = (zScore mood \<le> fudThreshold cfg \<and> momentum market \<le> momentumNegative cfg);
        burn = (detectCrossover (ema15History (pushHistory mood eng))
                  (ema60History (pushHistory mood eng)) = Down
                \<and> liquidity market > 10000)
    in (hype \<longrightarrow>
          action dec = HODL_TREASURY \<and> executionParams dec = None
          \<and> decision_reason dec = HighSentiment (zScore mood))
       \<and> (\<not> hype \<and> fud \<and> allowed verdict \<longrightarrow>
            action dec = BUYBACK
            \<and> executionParams dec
                = Some \<lparr>size_param = Some buySize,
                        maxSlippage = Some (maxSlippagePercent cfg),
                        dcaFactor = Some 0.5\<rparr>
            \<and> decision_reason dec = LowSentiment (zScore mood))
       \<and> (\<not> hype \<and> fud \<and> \<not> allowed verdict \<longrightarrow>
            action dec = NOOP \<and> executionParams dec = None
            \<and> decision_reason dec = BuybackBlocked (reason verdict))
       \<and> (\<not> hype \<and> \<not> fud \<and> burn \<longrightarrow>
            action dec = BURN \<and> executionParams dec = None
            \<and> decision_reason dec = BearishCrossover)
       \<and> (\<not> hype \<and> \<not> fud \<and> \<not> burn \<longrightarrow>
            action dec = NOOP \<and> executionParams dec = None
            \<and> decision_reason dec = NoClearSignal))
   \<and> (zScore mood = 2.0 \<and> momentum market = 0.01 \<longrightarrow>
        action (fst (makeDecision config_policy mood market (eng, (w, [])))) = HODL_TREASURY)
   \<and> (zScore mood = - 1.5 \<and> momentum market = - 0.01 \<longrightarrow>
        (let dec = fst (makeDecision config_policy mood market (eng, (w, [])));
             buySize = 0.01 * 1.5 * readTreasuryBalance w * 0.5;
             verdict = fst (canExecute config_policy buySize (w, []))
         in (allowed verdict \<longrightarrow>
               action dec = BUYBACK
               \<and> (\<exists>params. executionParams dec = Some params
                             \<and> size_param params = Some buySize))
            \<and> (\<not> allowed verdict \<longrightarrow>
                 action dec = NOOP \<and> executionParams dec = None
                 \<and> decision_reason dec = BuybackBlocked (reason verdict))))"
proof (intro conjI)
  show "let dec = fst (makeDecision cfg mood market (eng, (w, [])));
        buySize = 0.01 * abs (zScore mood) * readTreasuryBalance w * 0.5;
        verdict = fst (canExecute cfg buySize (w, []));
        hype = (zScore mood \<ge> hypeThreshold cfg \<and> momentum market \<ge> momentumPositive cfg);
        fud = (zScore mood \<le> fudThreshold cfg \<and> momentum market \<le> momentumNegative cfg);
        burn = (detectCrossover (ema15History (pushHistory mood eng))
                  (ema60History (pushHistory mood eng)) = Down
                \<and> liquidity market > 10000)
    in (hype \<longrightarrow>
          action dec = HODL_TREASURY \<and> executionParams dec = None
          \<and> decision_reason dec = HighSentiment (zScore mood))
       \<and> (\<not> hype \<and> fud \<and> allowed verdict \<longrightarrow>
            action dec = BUYBACK
            \<and> executionParams dec
                = Some \<lparr>size_param = Some buySize,
                        maxSlippage = Some (maxSlippagePercent cfg),
                        dcaFactor = Some 0.5\<rparr>
            \<and> decision_reason dec = LowSentiment (zScore mood))
       \<and> (\<not> hype \<and> fud \<and> \<not> allowed verdict \<longrightarrow>
            action dec = NOOP \<and> executionParams dec = None
            \<and> decision_reason dec = BuybackBlocked (reason verdict))
       \<and> (\<not> hype \<and> \<not> fud \<and> burn \<longrightarrow>
            action dec = BURN \<and> executionParams dec = None
            \<and> decision_reason dec = BearishCrossover)
       \<and> (\<not> hype \<and> \<not> fud \<and> \<not> burn \<longrightarrow>
            action dec = NOOP \<and> executionParams dec = None
            \<and> decision_reason dec = NoClearSignal)"
    unfolding makeDecision_quiet by (simp add: Let_def)
next
  show "zScore mood = 2.0 \<and> momentum market = 0.01 \<longrightarrow>
        action (fst (makeDecision config_policy mood market (eng, (w, [])))) = HODL_TREASURY"
    unfolding makeDecision_quiet by (simp add: Let_def config_policy_def)
next
  show "zScore mood = - 1.5 \<and> momentum market = - 0.01 \<longrightarrow>
        (let dec = fst (makeDecision config_policy mood market (eng, (w, [])));
             buySize = 0.01 * 1.5 * readTreasuryBalance w * 0.5;
             verdict = fst (canExecute config_policy buySize (w, []))
         in (allowed verdict \<longrightarrow>
               action dec = BUYBACK
               \<and> (\<exists>params. executionParams dec = Some params
                             \<and> size_param params = Some buySize))
            \<and> (\<not> allowed verdict \<longrightarrow>
                 action dec = NOOP \<and> executionParams dec = None
                 \<and> decision_reason dec = BuybackBlocked (reason verdict)))"
  proof
    assume h: "zScore mood = - 1.5 \<and> momentum market = - 0.01"
    then have z: "zScore mood = - 1.5" and m: "momentum market = - 0.01"
      by blast+
    have size: "0.01 * abs (zScore mood) * readTreasuryBalance w * 0.5
                  = 0.01 * 1.5 * readTreasuryBalance w * 0.5"
      by (simp add: z)
    have rules: "\<not> (zScore mood \<ge> hypeThreshold config_policy
                     \<and> momentum market \<ge> momentumPositive config_policy)"
      "zScore mood \<le> fudThreshold config_policy
         \<and> momentum market \<le> momentumNegative config_policy"
      by (simp_all add: z m config_policy_def)
    show "let dec = fst (makeDecision config_policy mood market (eng, (w, [])));
             buySize = 0.01 * 1.5 * readTreasuryBalance w * 0.5;
             verdict = fst (canExecute config_policy buySize (w, []))
         in (allowed verdict \<longrightarrow>
               action dec = BUYBACK
               \<and> (\<exists>params. executionParams dec = Some params
                             \<and> size_param params = Some buySize))
            \<and> (\<not> allowed verdict \<longrightarrow>
                 action dec = NOOP \<and> executionParams dec = None
                 \<and> decision_reason dec = BuybackBlocked (reason verdict))"
      unfolding makeDecision_quiet Let_def size using rules by auto
  qed
qed

theorem makeDecision_first_match_wins_witness:
  "action (fst (makeDecision config_policy (sampleMood 2.0) (sampleMarket 0.01 0)
             (newDecisionEngine, (emptyWorld, [])))) = HODL_TREASURY
   \<and> action (fst (makeDecision config_policy (sampleMood (- 1.5)) (sampleMarket (- 0.01) 0)
             (newDecisionEngine, (emptyWorld\<lparr>treasury_balance := Some 1000\<rparr>, []))))
       = BUYBACK
   \<and> executionParams
        (fst (makeDecision config_policy (sampleMood (- 1.5)) (sampleMarket (- 0.01) 0)
             (newDecisionEngine, (emptyWorld\<lparr>treasury_balance := Some 1000\<rparr>, []))))
       = Some \<lparr>size_param = Some 7.5, maxSlippage = Some 2, dcaFactor = Some 0.5\<rparr>
   \<and> action (fst (makeDecision config_policy (sampleMood (- 1.5)) (sampleMarket (- 0.01) 0)
             (newDecisionEngine,
              (emptyWorld\<lparr>kill_switch := Some ''active'', treasury_balance := Some 1000\<rparr>, []))))
       = NOOP
   \<and> decision_reason
        (fst (makeDecision config_policy (sampleMood (- 1.5)) (sampleMarket (- 0.01) 0)
             (newDecisionEngine,
              (emptyWorld\<lparr>kill_switch := Some ''active'', treasury_balance := Some 1000\<rparr>, []))))
       = BuybackBlocked (Some KillSwitchActive)
   \<and> action (fst (makeDecision config_policy (sampleMood 0) (sampleMarket 0 20000)
             (\<lparr>ema15History = [5], ema60History = [2]\<rparr>, (emptyWorld, [])))) = BURN
   \<and> action (fst (makeDecision config_policy (sampleMood 0) (sampleMarket 0 0)
             (newDecisionEngine, (emptyWorld, [])))) = NOOP
   \<and> decision_reason (fst (makeDecision config_policy (sampleMood 0) (sampleMarket 0 0)
             (newDecisionEngine, (emptyWorld, [])))) = NoClearSignal"
proof -
  have cfg: "hypeThreshold config_policy = 1.5" "fudThreshold config_policy = - 1.0"
    "momentumPositive config_policy = 0" "momentumNegative config_policy = 0"
    "maxSlippagePercent config_policy = 2" "minTreasuryThreshold config_policy = 0.1"
    "maxDailySpendPercent config_policy = 5" "maxConsecutiveLosses config_policy = 3"
    by (simp_all add: config_policy_def)
  have views: "readTreasuryBalance (emptyWorld\<lparr>treasury_balance := Some 1000\<rparr>) = 1000"
    "\<not> readKillSwitch (emptyWorld\<lparr>treasury_balance := Some 1000\<rparr>)"
    "readDailySpent d (emptyWorld\<lparr>treasury_balance := Some 1000\<rparr>) = 0"
    "readConsecutiveLosses (emptyWorld\<lparr>treasury_balance := Some 1000\<rparr>) = 0"
    "readKillSwitch (emptyWorld\<lparr>kill_switch := Some ''active'', treasury_balance := Some 1000\<rparr>)"
    for d
    by (simp_all add: emptyWorld_def readTreasuryBalance_def readKillSwitch_def
        readDailySpent_def liveDailySpent_def readConsecutiveLosses_def)
  have cross: "detectCrossover
                 (ema15History (pushHistory (sampleMood 0) \<lparr>ema15History = [5], ema60History = [2]\<rparr>))
                 (ema60History (pushHistory (sampleMood 0) \<lparr>ema15History = [5], ema60History = [2]\<rparr>))
               = Down"
    "detectCrossover (ema15History (pushHistory (sampleMood 0) newDecisionEngine))
       (ema60History (pushHistory (sampleMood 0) newDecisionEngine)) \<noteq> Down"
    by (simp_all add: pushHistory_def sampleMood_def newDecisionEngine_def detectCrossover_def
        Let_def)
  have ins: "zScore (sampleMood z) = z" "momentum (sampleMarket m l) = m"
    "liquidity (sampleMarket m l) = l" for z m l
    by (simp_all add: sampleMood_def sampleMarket_def)
  show ?thesis
    using makeDecision_first_match_wins
            [of config_policy "sampleMood 2.0" "sampleMarket 0.01 0" newDecisionEngine emptyWorld]
          makeDecision_first_match_wins
            [of config_policy "sampleMood (- 1.5)" "sampleMarket (- 0.01) 0" newDecisionEngine
                "emptyWorld\<lparr>treasury_balance := Some 1000\<rparr>"]
          makeDecision_first_match_wins
            [of config_policy "sampleMood (- 1.5)" "sampleMarket (- 0.01) 0" newDecisionEngine
                "emptyWorld\<lparr>kill_switch := Some ''active'', treasury_balance := Some 1000\<rparr>"]
          makeDecision_first_match_wins
            [of config_policy "sampleMood 0" "sampleMarket 0 20000"
                "\<lparr>ema15History = [5], ema60History = [2]\<rparr>" emptyWorld]
          makeDecision_first_match_wins
            [of config_policy "sampleMood 0" "sampleMarket 0 0" newDecisionEngine emptyWorld]
    by (simp add: Let_def cfg views cross ins canExecute_quiet reject_def)
qed


section \<open>Polling the pending transactions\<close>

lemma monitorLoop_effect:
  "monitorLoop net todo (pending, s) =
     (filter (\<lambda>e. \<not> (fst e \<in> fst ` set todo \<and> getTransactionStatus net (fst e) \<noteq> Pending))
        pending,
      foldl (\<lambda>s' e. recordExecution (sizeOrZero (snd e)) False s') s
        (filter (\<lambda>e. getTransactionStatus net (fst e) = Failed) todo))"
proof (induction todo arbitrary: pending s)
  case Nil
  then show ?case by simp
next
  case (Cons entry todo)
  obtain sig dec where entry: "entry = (sig, dec)" by (cases entry)
  show ?case
  proof (cases "getTransactionStatus net sig")
    case Confirmed
    then show ?thesis
      by (auto simp: entry Cons.IH pending_delete_def intro!: filter_cong)
  next
    case Failed
    then show ?thesis
      by (auto simp: entry Cons.IH pending_delete_def intro!: filter_cong)
  next
    case Pending
    then show ?thesis
      by (auto simp: entry Cons.IH intro!: filter_cong)
  qed
qed

lemma monitorPendingTransactions_effect:
  "monitorPendingTransactions net (pending, s) =
     (filter (\<lambda>e. getTransactionStatus net (fst e) = Pending) pending,
      foldl (\<lambda>s' e. recordExecution (sizeOrZero (snd e)) False s') s
        (filter (\<lambda>e. getTransactionStatus net (fst e) = Failed) pending))"
proof -
  have "filter (\<lambda>e. \<not> (fst e \<in> fst ` set pending \<and> getTransactionStatus net (fst e) \<noteq> Pending))
          pending
        = filter (\<lambda>e. getTransactionStatus net (fst e) = Pending) pending"
    by (rule filter_cong) auto
  then show ?thesis
    by (simp add: monitorPendingTransactions_def monitorLoop_effect)
qed

text \<open>
  C5: one poll keeps exactly the references whose status is pending and calls
  \<open>recordExecution(amount, false)\<close> once for each reference whose status is failed, in
  the order of the map, and makes no other change to the store. So a failed reference
  is removed with exactly one such call, a pending one stays with no call, a confirmed
  one is removed with no call. A reference removed as terminal is no longer in the
  active set: a later poll, whatever the chain answers then, calls \<open>recordExecution\<close> only
  for references that were still pending, and a second poll with unchanged answers
  changes nothing.
\<close>

theorem monitorPendingTransactions_poll:
  "monitorPendingTransactions net (pending, s) =
     (filter (\<lambda>e. getTransactionStatus net (fst e) = Pending) pending,
      foldl (\<lambda>s' e. recordExecution (sizeOrZero (snd e)) False s') s
        (filter (\<lambda>e. getTransactionStatus net (fst e) = Failed) pending))
   \<and> (getTransactionStatus net sig = Failed \<longrightarrow>
        monitorPendingTransactions net ([(sig, dec)], s)
          = ([], recordExecution (sizeOrZero dec) False s))
   \<and> (getTransactionStatus net sig = Pending \<longrightarrow>
        monitorPendingTransactions net ([(sig, dec)], s) = ([(sig, dec)], s))
   \<and> (getTransactionStatus net sig = Confirmed \<longrightarrow>
        monitorPendingTransactions net ([(sig, dec)], s) = ([], s))
   \<and> (getTransactionStatus net sig \<noteq> Pending \<longrightarrow>
        sig \<notin> fst ` set (fst (monitorPendingTransactions net (pending, s))))
   \<and> snd (monitorPendingTransactions net' (monitorPendingTransactions net (pending, s)))
       = foldl (\<lambda>s' e. recordExecution (sizeOrZero (snd e)) False s')
           (snd (monitorPendingTransactions net (pending, s)))
           (filter (\<lambda>e. getTransactionStatus net' (fst e) = Failed)
              (filter (\<lambda>e. getTransactionStatus net (fst e) = Pending) pending))
   \<and> ((\<forall>e \<in> set pending. getTransactionStatus net (fst e) \<noteq> Pending) \<longrightarrow>
        monitorPendingTransactions net' (monitorPendingTransactions net (pending, s))
          = monitorPendingTransactions net (pending, s))
   \<and> monitorPendingTransactions net (monitorPendingTransactions net (pending, s))
       = monitorPendingTransactions net (pending, s)"
proof -
  have all_terminal:
    "filter (\<lambda>e. getTransactionStatus net (fst e) = Pending) pending = []"
    if "\<forall>e \<in> set pending. getTransactionStatus net (fst e) \<noteq> Pending"
    using that by (simp add: filter_empty_conv)
  have none_failed:
    "filter (\<lambda>e. getTransactionStatus net (fst e) = Failed)
       (filter (\<lambda>e. getTransactionStatus net (fst e) = Pending) pending) = []"
    by (simp add: filter_empty_conv)
  show ?thesis
    by (auto simp: monitorPendingTransactions_effect all_terminal none_failed)
qed

theorem monitorPendingTransactions_poll_witness:
  "getTransactionStatus (sampleChain (\<lambda>_. Some ValueWithErr)) ''tx1'' = Failed
   \<and> monitorPendingTransactions (sampleChain (\<lambda>_. Some ValueWithErr))
        ([(''tx1'', sampleDecision BUYBACK (Some 5))], (emptyWorld, []))
       = ([], recordExecution 5 False (emptyWorld, []))
   \<and> getTransactionStatus (sampleChain (\<lambda>_. Some NoValue)) ''tx1'' = Pending
   \<and> monitorPendingTransactions (sampleChain (\<lambda>_. Some NoValue))
        ([(''tx1'', sampleDecision BUYBACK (Some 5))], (emptyWorld, []))
       = ([(''tx1'', sampleDecision BUYBACK (Some 5))], (emptyWorld, []))
   \<and> getTransactionStatus (sampleChain (\<lambda>_. Some ValueOk)) ''tx1'' = Confirmed
   \<and> monitorPendingTransactions (sampleChain (\<lambda>_. Some ValueOk))
        ([(''tx1'', sampleDecision BUYBACK (Some 5))], (emptyWorld, []))
       = ([], (emptyWorld, []))
   \<and> monitorPendingTransactions (sampleChain (\<lambda>_. Some ValueWithErr))
        (monitorPendingTransactions (sampleChain (\<lambda>_. Some ValueWithErr))
           ([(''tx1'', sampleDecision BUYBACK (Some 5))], (emptyWorld, [])))
       = ([], recordExecution 5 False (emptyWorld, []))
   \<and> getTransactionStatus (sampleChain (\<lambda>_. Some ValueWithErr)) ''tx1'' \<noteq> Pending
   \<and> monitorPendingTransactions (sampleChain (\<lambda>_. Some ValueOk))
        (monitorPendingTransactions (sampleChain (\<lambda>_. Some ValueWithErr))
           ([(''tx1'', sampleDecision BUYBACK (Some 5))], (emptyWorld, [])))
       = ([], recordExecution 5 False (emptyWorld, []))"
proof -
  have st: "getTransactionStatus (sampleChain (\<lambda>_. Some ValueWithErr)) sig = Failed"
    "getTransactionStatus (sampleChain (\<lambda>_. Some NoValue)) sig = Pending"
    "getTransactionStatus (sampleChain (\<lambda>_. Some ValueOk)) sig = Confirmed" for sig
    by (simp_all add: getTransactionStatus_def sampleChain_def)
  have sz: "sizeOrZero (sampleDecision BUYBACK (Some 5)) = 5"
    by (simp add: sizeOrZero_def truthySize_def sampleDecision_def)
  have none: "monitorPendingTransactions net ([], s) = ([], s)" for net s
    by (simp add: monitorPendingTransactions_def)
  show ?thesis
    using monitorPendingTransactions_poll
            [of "sampleChain (\<lambda>_. Some ValueWithErr)"
                "[(''tx1'', sampleDecision BUYBACK (Some 5))]" "(emptyWorld, [])" "''tx1''"
                "sampleDecision BUYBACK (Some 5)" "sampleChain (\<lambda>_. Some ValueWithErr)"]
          monitorPendingTransactions_poll
            [of "sampleChain (\<lambda>_. Some ValueWithErr)"
                "[(''tx1'', sampleDecision BUYBACK (Some 5))]" "(emptyWorld, [])" "''tx1''"
                "sampleDecision BUYBACK (Some 5)" "sampleChain (\<lambda>_. Some ValueOk)"]
          monitorPendingTransactions_poll
            [of "sampleChain (\<lambda>_. Some NoValue)"
                "[(''tx1'', sampleDecision BUYBACK (Some 5))]" "(emptyWorld, [])" "''tx1''"
                "sampleDecision BUYBACK (Some 5)" "sampleChain (\<lambda>_. Some NoValue)"]
          monitorPendingTransactions_poll
            [of "sampleChain (\<lambda>_. Some ValueOk)"
                "[(''tx1'', sampleDecision BUYBACK (Some 5))]" "(emptyWorld, [])" "''tx1''"
                "sampleDecision BUYBACK (Some 5)" "sampleChain (\<lambda>_. Some ValueOk)"]
    by (simp add: st sz none)
qed


section \<open>Executing a decision\<close>










end
